theory Spec2Isabelle
  imports Complex_Main "HOL-Library.Log_Nat"
begin

section \<open>Errors\<close>

text \<open>
  The exceptions the modelled Python code can raise. A failed \<open>assert\<close> is
  \<open>AssertionError\<close>; calling a method on \<open>None\<close> is \<open>AttributeError\<close>; a numpy
  index past the end of an axis is \<open>IndexError\<close>; \<open>min\<close>, \<open>max\<close> and \<open>argmax\<close> of an
  empty array are \<open>ValueError\<close>.
\<close>

datatype error = AssertionError | AttributeError | IndexError | ValueError

section \<open>Floating point\<close>

text \<open>
  A float is the real number it stands for, and an arithmetic operation of the source
  is the exact operation followed by the rounding of its format: to the nearest
  number of \<open>p\<close> significant bits, ties to the one whose last bit is even (\<open>p\<close> is 24
  for float32 and 53 for float64, the Python float). The exponent range is not
  bounded: overflow, subnormal numbers, infinities and NaN are outside the model.
\<close>

definition round_even :: "real \<Rightarrow> int" where
  "round_even x =
     (let f = \<lfloor>x\<rfloor>; d = x - of_int f in
      if d < 1 / 2 then f
      else if 1 / 2 < d then f + 1
      else if even f then f else f + 1)"

text \<open>The exponent \<open>e\<close> of \<open>x \<noteq> 0\<close>: \<open>2 ^ e \<le> \<bar>x\<bar> < 2 ^ (e + 1)\<close>.\<close>

definition exponent :: "real \<Rightarrow> int" where
  "exponent x =
     (if 1 \<le> \<bar>x\<bar> then bitlen \<lfloor>\<bar>x\<bar>\<rfloor> - 1 else - bitlen (\<lceil>1 / \<bar>x\<bar>\<rceil> - 1))"

definition fl :: "nat \<Rightarrow> real \<Rightarrow> real" where
  "fl p x =
     (if x = 0 then 0
      else let u = 2 powi (exponent x - int p + 1) in of_int (round_even (x / u)) * u)"

definition float32 :: "real \<Rightarrow> real" where
  "float32 x = fl 24 x"

definition float64 :: "real \<Rightarrow> real" where
  "float64 x = fl 53 x"

section \<open>Pose utilities (nuwa/utils/pose\_utils.py)\<close>

text \<open>
  A pose is a 4x4 matrix, kept as four rows of four entries. The product of a pose with
  a matrix of entries 0, 1 and -1 is exact in floating point, so the entries of a pose
  are taken as real numbers and the product as the exact one.
\<close>

type_synonym row4 = "real \<times> real \<times> real \<times> real"
type_synonym mat4 = "row4 \<times> row4 \<times> row4 \<times> row4"

fun dot4 :: "row4 \<Rightarrow> row4 \<Rightarrow> real" where
  "dot4 (a, b, c, d) (e, f, g, h) = a * e + b * f + c * g + d * h"

fun transpose4 :: "mat4 \<Rightarrow> mat4" where
  "transpose4 ((a0, a1, a2, a3), (b0, b1, b2, b3), (c0, c1, c2, c3), (d0, d1, d2, d3)) =
     ((a0, b0, c0, d0), (a1, b1, c1, d1), (a2, b2, c2, d2), (a3, b3, c3, d3))"

fun row_times :: "row4 \<Rightarrow> mat4 \<Rightarrow> row4" where
  "row_times r (c0, c1, c2, c3) = (dot4 r c0, dot4 r c1, dot4 r c2, dot4 r c3)"

text \<open>The matrix product \<open>A @ B\<close>: row \<open>i\<close> of the result is row \<open>i\<close> of \<open>A\<close>
  against the columns of \<open>B\<close>.\<close>

fun matmul :: "mat4 \<Rightarrow> mat4 \<Rightarrow> mat4" where
  "matmul (r0, r1, r2, r3) B =
     (row_times r0 (transpose4 B), row_times r1 (transpose4 B),
      row_times r2 (transpose4 B), row_times r3 (transpose4 B))"

text \<open>Column \<open>j\<close> of a pose, \<open>pose[:, j]\<close>, for \<open>j\<close> in 0..3.\<close>

fun column :: "mat4 \<Rightarrow> nat \<Rightarrow> row4" where
  "column M j =
     (case transpose4 M of (c0, c1, c2, c3) \<Rightarrow>
        if j = 0 then c0 else if j = 1 then c1 else if j = 2 then c2 else c3)"

definition accepted_types :: "string list" where
  "accepted_types = [''cv'', ''gl'', ''blender'']"

definition flip_yz :: mat4 where
  "flip_yz = ((1, 0, 0, 0), (0, -1, 0, 0), (0, 0, -1, 0), (0, 0, 0, 1))"

text \<open>The renaming of lines 10 to 13: \<open>blender\<close> is read as \<open>gl\<close>.\<close>

definition gl_of_blender :: "string \<Rightarrow> string" where
  "gl_of_blender t = (if t = ''blender'' then ''gl'' else t)"

definition convert_camera_pose :: "mat4 \<Rightarrow> string \<Rightarrow> string \<Rightarrow> error + mat4" where
  "convert_camera_pose pose in_type out_type =
     (if in_type \<notin> set accepted_types then Inl AssertionError
      else if out_type \<notin> set accepted_types then Inl AssertionError
      else if gl_of_blender in_type = gl_of_blender out_type then Inr pose
      else Inr (matmul pose flip_yz))"

definition rot90 :: mat4 where
  "rot90 = ((0, 1, 0, 0), (-1, 0, 0, 0), (0, 0, 1, 0), (0, 0, 0, 1))"

definition get_rot90_camera_matrices ::
  "mat4 \<Rightarrow> real \<Rightarrow> real \<Rightarrow> real \<Rightarrow> real \<Rightarrow> real \<Rightarrow> mat4 \<times> real \<times> real \<times> real \<times> real" where
  "get_rot90_camera_matrices pose fx fy cx cy h =
     (let new_pose_matrix = matmul pose rot90;
          nfx = fy;
          nfy = fx;
          ncx = float64 (h - cy);
          ncy = cx
      in (new_pose_matrix, nfx, nfy, ncx, ncy))"

text \<open>Sequencing of calls that may raise.\<close>

fun bind_err :: "error + 'a \<Rightarrow> ('a \<Rightarrow> error + 'b) \<Rightarrow> error + 'b" where
  "bind_err (Inl e) f = Inl e"
| "bind_err (Inr x) f = f x"

section \<open>The dataset (nuwa/data/db.py)\<close>

text \<open>
  The frame and its camera, with the fields the code of \<open>NuwaDB\<close> reads and writes.
  The field names carry a prefix, the names after it are the source's.
\<close>

record camera =
  cam_camera_param_model :: string
  cam_w :: nat
  cam_h :: nat
  cam_fx :: real
  cam_fy :: real
  cam_cx :: real
  cam_cy :: real

record frame =
  frame_image_path :: string
  frame_org_path :: string
  frame_mask_path :: "string option"
  frame_pose :: mat4
  frame_camera :: camera

text \<open>\<open>colmap_reconstruction\<close> is \<open>None\<close> by default (line 19).\<close>

record 'r nuwadb =
  source :: string
  frames :: "frame list"
  colmap_reconstruction :: "'r option"

type_synonym vec3 = "real \<times> real \<times> real"
type_synonym mat3 = "vec3 \<times> vec3 \<times> vec3"
type_synonym mask = "bool list list"

text \<open>
  A call leaves the dataset in some state whether it returns or raises, so an outcome
  carries the state in both cases. \<open>NonFinite\<close> is the third way out of
  \<open>normalize_cameras\<close>: numpy divides a float by the float zero without raising (the
  quotient is inf, with a warning), the camera centres (zero vectors there) times inf
  are NaN, and the call returns with these poses written to the frames. Real numbers
  have no such values, so this outcome carries no state.
\<close>

datatype 's outcome = Raised error 's | Returned 's | NonFinite

fun raises :: "'s outcome \<Rightarrow> bool" where
  "raises (Raised e s) = True"
| "raises (Returned s) = False"
| "raises NonFinite = False"

text \<open>
  The code of the repository that is not among the sources, and the libraries, enter
  as parameters: the methods of \<open>Reconstruction\<close> (nuwa/data/colmap.py), the camera's
  \<open>intrinsic_matrix\<close> (nuwa/data/frame.py), \<open>scene_carving\<close>, \<open>crop_images\<close>,
  \<open>segment_img\<close>, \<open>sam\<close> and \<open>SAMAPI.segment_api\<close> (nuwa/utils/seg\_utils.py),
  \<open>raft_optical_flow_api\<close> (nuwa/utils/dmv\_utils.py), PIL's \<open>Image.reduce\<close> on an
  image and on a mask of bytes, the shape of an image array, and OpenCV's
  \<open>connectedComponentsWithStats\<close>, of which the code reads the label image and
  column 4 of the statistics (the area of every label, the background first).
  Images are of a type \<open>'img\<close> the model does not look into.
  \<open>mixed_precision\<close> is the precision numpy gives to an operation between a float32
  scalar and a Python float: 53 (the result is a float64) before numpy 2, and 24 (the
  Python float is first made a float32, and so is the result) from numpy 2 on.
\<close>

record ('img, 'r) collaborators =
  world_translate :: "vec3 \<Rightarrow> 'r \<Rightarrow> 'r"
  world_scale :: "real \<Rightarrow> 'r \<Rightarrow> 'r"
  intrinsic_matrix :: "camera \<Rightarrow> mat3"
  scene_carving :: "mask list \<Rightarrow> mat3 list \<Rightarrow> mat4 list \<Rightarrow> mat4 list"
  crop_images :: "'img list \<Rightarrow> mask list \<Rightarrow> mat3 list \<Rightarrow> 'img list \<times> mat3 list \<times> mask list"
  img_shape :: "'img \<Rightarrow> nat \<times> nat"
  segment_img :: "'img \<Rightarrow> mask"
  sam :: "'img \<Rightarrow> mask \<Rightarrow> mask"
  reduce_img :: "int \<Rightarrow> 'img \<Rightarrow> 'img"
  reduce_mask :: "int \<Rightarrow> mask \<Rightarrow> nat list list"
  raft_optical_flow_api :: "'img \<Rightarrow> 'img \<Rightarrow> (real \<times> real) list list"
  segment_api :: "'img \<Rightarrow> int \<times> int \<times> int \<times> int \<Rightarrow> mask"
  connectedComponentsWithStats :: "mask \<Rightarrow> nat list list \<times> nat list"
  mixed_precision :: nat

subsection \<open>normalize\_cameras\<close>

text \<open>The camera centre \<open>pose[:3, 3]\<close>, and the pose with that part replaced.\<close>

fun centre :: "mat4 \<Rightarrow> vec3" where
  "centre ((a0, a1, a2, a3), (b0, b1, b2, b3), (c0, c1, c2, c3), d) = (a3, b3, c3)"

fun set_centre :: "mat4 \<Rightarrow> vec3 \<Rightarrow> mat4" where
  "set_centre ((a0, a1, a2, a3), (b0, b1, b2, b3), (c0, c1, c2, c3), d) (x, y, z) =
     ((a0, a1, a2, x), (b0, b1, b2, y), (c0, c1, c2, z), d)"

fun vx :: "vec3 \<Rightarrow> real" where "vx (x, y, z) = x"
fun vy :: "vec3 \<Rightarrow> real" where "vy (x, y, z) = y"
fun vz :: "vec3 \<Rightarrow> real" where "vz (x, y, z) = z"

fun sub3 :: "vec3 \<Rightarrow> vec3 \<Rightarrow> vec3" where
  "sub3 (x, y, z) (ox, oy, oz) = (x - ox, y - oy, z - oz)"

fun neg3 :: "vec3 \<Rightarrow> vec3" where
  "neg3 (x, y, z) = (- x, - y, - z)"

fun scale3 :: "real \<Rightarrow> vec3 \<Rightarrow> vec3" where
  "scale3 k (x, y, z) = (x * k, y * k, z * k)"

text \<open>\<open>np.linalg.norm\<close> of a centre.\<close>

fun norm3 :: "vec3 \<Rightarrow> real" where
  "norm3 (x, y, z) = sqrt (x * x + y * y + z * z)"

text \<open>
  Lines 201 to 220. With no frame, \<open>camera_poses\<close> is an array of one axis and line
  205 raises on the index. \<open>camera_poses\<close> is a fresh array, so until the loop of
  lines 219 and 220 no frame has changed; the reconstruction is translated in place at
  line 213, before the scale is computed.
\<close>

definition normalize_cameras ::
  "('img, 'r) collaborators \<Rightarrow> bool \<Rightarrow> real \<Rightarrow> 'r nuwadb \<Rightarrow> 'r nuwadb outcome" where
  "normalize_cameras E positive_z scale_factor self =
     (let camera_poses = map frame_pose (frames self) in
      if camera_poses = [] then Raised IndexError self
      else
        let cs = map centre camera_poses;
            xm = Min (set (map vx cs)); ym = Min (set (map vy cs)); zm = Min (set (map vz cs));
            xM = Max (set (map vx cs)); yM = Max (set (map vy cs)); zM = Max (set (map vz cs));
            offset = (if positive_z then ((xm + xM) / 2, (ym + yM) / 2, zm)
                      else ((xm + xM) / 2, (ym + yM) / 2, (zm + zM) / 2));
            centred = map (\<lambda>c. sub3 c offset) cs
        in
          case colmap_reconstruction self of
            None \<Rightarrow> Raised AttributeError self
          | Some rec0 \<Rightarrow>
              let rec1 = world_translate E (neg3 offset) rec0;
                  biggest = Max (set (map norm3 centred))
              in
                if biggest = 0 then NonFinite
                else
                  let scale = scale_factor / biggest;
                      scaled = map (scale3 scale) centred;
                      rec2 = world_scale E scale rec1
                  in Returned (self
                       \<lparr>frames := map (\<lambda>(f, c). f\<lparr>frame_pose := set_centre (frame_pose f) c\<rparr>)
                                      (zip (frames self) scaled),
                        colmap_reconstruction := Some rec2\<rparr>))"

text \<open>The camera centres of a dataset, in frame order.\<close>

definition centres :: "'r nuwadb \<Rightarrow> vec3 list" where
  "centres db = map (\<lambda>f. centre (frame_pose f)) (frames db)"

text \<open>The offset of lines 208 to 211, from the centres.\<close>

definition offset_of :: "bool \<Rightarrow> vec3 list \<Rightarrow> vec3" where
  "offset_of positive_z cs =
     (if positive_z
      then ((Min (set (map vx cs)) + Max (set (map vx cs))) / 2,
            (Min (set (map vy cs)) + Max (set (map vy cs))) / 2,
            Min (set (map vz cs)))
      else ((Min (set (map vx cs)) + Max (set (map vx cs))) / 2,
            (Min (set (map vy cs)) + Max (set (map vy cs))) / 2,
            (Min (set (map vz cs)) + Max (set (map vz cs))) / 2))"

subsection \<open>Mask propagation (calculate\_object\_mask, lines 110 to 148)\<close>

text \<open>
  A box is \<open>(xmin, ymin, xmax, ymax)\<close>. \<open>int\<close> of a float truncates toward zero.
\<close>

type_synonym bbox = "int \<times> int \<times> int \<times> int"

definition trunc :: "real \<Rightarrow> int" where
  "trunc x = (if 0 \<le> x then \<lfloor>x\<rfloor> else \<lceil>x\<rceil>)"

text \<open>\<open>ref_mask.nonzero()\<close>: the coordinates \<open>(y, x)\<close> of the foreground pixels, row by
  row.\<close>

definition nonzero :: "mask \<Rightarrow> (nat \<times> nat) list" where
  "nonzero m = concat (map (\<lambda>y. map (\<lambda>x. (y, x)) (filter (\<lambda>x. m ! y ! x) [0..<length (m ! y)]))
                          [0..<length m])"

text \<open>
  \<open>flow[ys, xs]\<close> raises when a coordinate is past the end of the flow field.
  Line 128 makes the coordinates float32, and line 129 adds the flow vector of the
  pixel \<open>(x, y)\<close>, a float32 too, in float32.
\<close>

definition in_range :: "(real \<times> real) list list \<Rightarrow> nat \<times> nat \<Rightarrow> bool" where
  "in_range flow p = (fst p < length flow \<and> snd p < length (flow ! fst p))"

definition warp :: "(real \<times> real) list list \<Rightarrow> nat \<times> nat \<Rightarrow> real \<times> real" where
  "warp flow p =
     (float32 (float32 (real (snd p)) + fst (flow ! fst p ! snd p)),
      float32 (float32 (real (fst p)) + snd (flow ! fst p ! snd p)))"

text \<open>
  Lines 126 to 138, from the downsampled previous mask and the flow field to the box
  that goes to the segmentation. \<open>min\<close> and \<open>max\<close> of an empty array raise. The
  extents of line 132 are differences of float32 scalars, in float32; lines 133 to 136
  combine float32 scalars with the Python float \<open>shrink\<close>, at the precision \<open>p\<close> numpy
  gives to that. There is no clipping in these lines.
\<close>

definition frame_bbox ::
  "nat \<Rightarrow> int \<Rightarrow> real \<Rightarrow> mask \<Rightarrow> (real \<times> real) list list \<Rightarrow> error + bbox" where
  "frame_bbox p reduce_factor shrink ref_mask flow =
     (let ys_xs = nonzero ref_mask in
      if \<not> list_all (in_range flow) ys_xs then Inl IndexError
      else
        let fg_pixels = map (warp flow) ys_xs in
        if fg_pixels = [] then Inl ValueError
        else
          let xmin = Min (set (map fst fg_pixels)); xmax = Max (set (map fst fg_pixels));
              ymin = Min (set (map snd fg_pixels)); ymax = Max (set (map snd fg_pixels));
              w = float32 (xmax - xmin); h = float32 (ymax - ymin);
              xmin = trunc (fl p (xmin - fl p (w * fl p shrink)));
              xmax = trunc (fl p (xmax + fl p (w * fl p shrink)));
              ymin = trunc (fl p (ymin - fl p (h * fl p shrink)));
              ymax = trunc (fl p (ymax + fl p (h * fl p shrink)))
          in Inr (xmin * reduce_factor, ymin * reduce_factor,
                  xmax * reduce_factor, ymax * reduce_factor))"

text \<open>\<open>np.argmax\<close>: the first index of the largest entry; it raises on an empty
  array, which is \<open>None\<close> here.\<close>

fun argmax :: "nat list \<Rightarrow> nat option" where
  "argmax [] = None"
| "argmax (x # xs) =
     (case argmax xs of
        None \<Rightarrow> Some 0
      | Some j \<Rightarrow> if x < xs ! j then Some (Suc j) else Some 0)"

text \<open>
  Lines 141 to 145: \<open>stats[1:, 4]\<close> are the areas of the labels from 1 on; the
  \<open>ValueError\<close> of \<open>argmax\<close> is caught and answered with \<open>np.ones_like(mask)\<close>.
\<close>

definition largest_component :: "mask \<Rightarrow> nat list list \<Rightarrow> nat list \<Rightarrow> mask" where
  "largest_component seg labels stats =
     (case argmax (drop 1 stats) of
        Some j \<Rightarrow> (let maxcomp = j + 1 in map (map (\<lambda>l. l = maxcomp)) labels)
      | None \<Rightarrow> map (map (\<lambda>_. True)) seg)"

text \<open>Lines 123 and 124, lines 119 to 121, and lines 140 to 145.\<close>

definition ref_mask_of :: "('img, 'r) collaborators \<Rightarrow> int \<Rightarrow> mask \<Rightarrow> mask" where
  "ref_mask_of E reduce_factor prev_mask = map (map (\<lambda>v. 0 < v)) (reduce_mask E reduce_factor prev_mask)"

definition flow_of :: "('img, 'r) collaborators \<Rightarrow> int \<Rightarrow> 'img \<Rightarrow> 'img \<Rightarrow> (real \<times> real) list list" where
  "flow_of E reduce_factor prev_img img =
     raft_optical_flow_api E (reduce_img E reduce_factor prev_img) (reduce_img E reduce_factor img)"

definition cleaned :: "('img, 'r) collaborators \<Rightarrow> mask \<Rightarrow> mask" where
  "cleaned E seg =
     (case connectedComponentsWithStats E seg of (labels, stats) \<Rightarrow>
        largest_component seg labels stats)"

text \<open>The branch \<open>i > 0\<close> of the loop body, lines 119 to 145.\<close>

definition propagate_frame ::
  "('img, 'r) collaborators \<Rightarrow> int \<Rightarrow> real \<Rightarrow> 'img \<Rightarrow> mask \<Rightarrow> 'img \<Rightarrow> error + mask" where
  "propagate_frame E reduce_factor shrink prev_img prev_mask img =
     (let flow = flow_of E reduce_factor prev_img img;
          ref_mask = ref_mask_of E reduce_factor prev_mask
      in case frame_bbox (mixed_precision E) reduce_factor shrink ref_mask flow of
           Inl e \<Rightarrow> Inl e
         | Inr bbox \<Rightarrow> Inr (cleaned E (segment_api E img bbox)))"

text \<open>
  The loop of lines 112 to 148 over the images of the frames, in frame order: \<open>imgs\<close>
  are all of them, the fifth argument those still to come, \<open>masks\<close> the list built
  so far, whose length is the index \<open>i\<close>. An exception ends the loop.
\<close>

fun masking_loop ::
  "('img, 'r) collaborators \<Rightarrow> int \<Rightarrow> real \<Rightarrow> 'img list \<Rightarrow> 'img list \<Rightarrow> mask list \<Rightarrow> error + mask list" where
  "masking_loop E reduce_factor shrink imgs [] masks = Inr masks"
| "masking_loop E reduce_factor shrink imgs (img # rest) masks =
     (let i = length masks in
      if i = 0 then
        masking_loop E reduce_factor shrink imgs rest (masks @ [sam E img (segment_img E img)])
      else
        case propagate_frame E reduce_factor shrink (imgs ! (i - 1)) (masks ! (i - 1)) img of
          Inl e \<Rightarrow> Inl e
        | Inr m \<Rightarrow> masking_loop E reduce_factor shrink imgs rest (masks @ [m]))"

definition calculate_masks ::
  "('img, 'r) collaborators \<Rightarrow> int \<Rightarrow> real \<Rightarrow> 'img list \<Rightarrow> error + mask list" where
  "calculate_masks E reduce_factor shrink imgs = masking_loop E reduce_factor shrink imgs imgs []"

text \<open>
  The scenario of an all-foreground mask and a flow field that moves nothing, both of
  \<open>H\<close> rows and \<open>W\<close> columns; what it is for a box to lie within an image of
  width \<open>W\<close> and height \<open>H\<close>; and the default of \<open>shrink\<close> (line 79), the float64
  nearest to 0.02.
\<close>

definition default_shrink :: real where
  "default_shrink = 5764607523034235 / 2 ^ 58"

definition full_mask :: "nat \<Rightarrow> nat \<Rightarrow> mask" where
  "full_mask H W = replicate H (replicate W True)"

definition identity_flow :: "nat \<Rightarrow> nat \<Rightarrow> (real \<times> real) list list" where
  "identity_flow H W = replicate H (replicate W (0, 0))"

fun box_in_image :: "nat \<Rightarrow> nat \<Rightarrow> bbox \<Rightarrow> bool" where
  "box_in_image W H (xmin, ymin, xmax, ymax) =
     (0 \<le> xmin \<and> 0 \<le> ymin \<and> xmax \<le> int W \<and> ymax \<le> int H)"

subsection \<open>The camera adjustment of calculate\_object\_mask (lines 165 to 189)\<close>

text \<open>\<open>f"{i:06d}.png"\<close>: the decimal digits of \<open>i\<close>, padded with zeros to six.\<close>

definition digits10 :: string where
  "digits10 = ''0123456789''"

fun decimal :: "nat \<Rightarrow> string" where
  "decimal n = (if n < 10 then [digits10 ! n] else decimal (n div 10) @ [digits10 ! (n mod 10)])"

declare decimal.simps [simp del]

definition fmt06 :: "nat \<Rightarrow> string" where
  "fmt06 i = replicate (6 - length (decimal i)) CHR ''0'' @ decimal i"

text \<open>\<open>os.path.join\<close> of a directory and a name.\<close>

definition path_join :: "string \<Rightarrow> string \<Rightarrow> string" where
  "path_join a b =
     (if b \<noteq> [] \<and> hd b = CHR ''/'' then b
      else if a = [] \<or> last a = CHR ''/'' then a @ b
      else a @ ''/'' @ b)"

text \<open>The entries \<open>[0, 0]\<close>, \<open>[1, 1]\<close>, \<open>[0, 2]\<close> and \<open>[1, 2]\<close> of an intrinsic matrix.\<close>

fun k00 :: "mat3 \<Rightarrow> real" where "k00 ((a, b, c), (d, e, f), g) = a"
fun k11 :: "mat3 \<Rightarrow> real" where "k11 ((a, b, c), (d, e, f), g) = e"
fun k02 :: "mat3 \<Rightarrow> real" where "k02 ((a, b, c), (d, e, f), g) = c"
fun k12 :: "mat3 \<Rightarrow> real" where "k12 ((a, b, c), (d, e, f), g) = f"

text \<open>
  Lines 182 to 185, and lines 186 to 189, on frame \<open>i\<close>. Every frame holds its own
  camera here.
\<close>

definition write_pose_path_size ::
  "string \<Rightarrow> mat4 list \<Rightarrow> nat \<Rightarrow> nat \<Rightarrow> nat \<Rightarrow> frame \<Rightarrow> frame" where
  "write_pose_path_size masked_image_save_dir camera_poses w h i f =
     f\<lparr>frame_pose := camera_poses ! i,
       frame_image_path := path_join masked_image_save_dir (fmt06 i @ ''.png''),
       frame_camera := (frame_camera f)\<lparr>cam_w := w, cam_h := h\<rparr>\<rparr>"

definition write_intrinsics :: "mat3 list \<Rightarrow> nat \<Rightarrow> frame \<Rightarrow> frame" where
  "write_intrinsics ks i f =
     f\<lparr>frame_camera := (frame_camera f)
         \<lparr>cam_fx := k00 (ks ! i), cam_fy := k11 (ks ! i),
          cam_cx := k02 (ks ! i), cam_cy := k12 (ks ! i)\<rparr>\<rparr>"

text \<open>
  The loop of lines 180 to 189 from index \<open>i\<close> on, over the frames still to visit.
  It returns the exception that ended it, if any, and the frames as they are then:
  the assertion of line 181 comes before the writes to its frame and after the writes
  to the frames before it. \<open>camera_poses[i]\<close> and \<open>ks[i]\<close> raise past the end.
\<close>

fun update_info ::
  "string \<Rightarrow> mat4 list \<Rightarrow> mat3 list \<Rightarrow> nat \<Rightarrow> nat \<Rightarrow> nat \<Rightarrow> frame list \<Rightarrow> error option \<times> frame list" where
  "update_info dir camera_poses ks w h i [] = (None, [])"
| "update_info dir camera_poses ks w h i (f # fs) =
     (if cam_camera_param_model (frame_camera f) \<noteq> ''PINHOLE'' then (Some AssertionError, f # fs)
      else if length camera_poses \<le> i then (Some IndexError, f # fs)
      else
        let f1 = write_pose_path_size dir camera_poses w h i f in
        if length ks \<le> i then (Some IndexError, f1 # fs)
        else
          let f2 = write_intrinsics ks i f1 in
          case update_info dir camera_poses ks w h (Suc i) fs of
            (e, fs') \<Rightarrow> (e, f2 # fs'))"

text \<open>
  Lines 166 to 189. The images written at lines 176 and 177 are files, which the model
  does not hold. \<open>images[0]\<close> raises when \<open>crop_images\<close> returns no image.
\<close>

definition adjust_cameras ::
  "('img, 'r) collaborators \<Rightarrow> string \<Rightarrow> mask list \<Rightarrow> 'img list \<Rightarrow> 'r nuwadb \<Rightarrow> 'r nuwadb outcome" where
  "adjust_cameras E masked_image_save_dir masks images self =
     (case normalize_cameras E True 1 self of
        Raised e s \<Rightarrow> Raised e s
      | NonFinite \<Rightarrow> NonFinite
      | Returned s1 \<Rightarrow>
          let ks = map (\<lambda>f. intrinsic_matrix E (frame_camera f)) (frames s1);
              camera_poses = scene_carving E masks ks (map frame_pose (frames s1))
          in
            case crop_images E images masks ks of
              ([], ks', masks') \<Rightarrow> Raised IndexError s1
            | (img0 # imgs', ks', masks') \<Rightarrow>
                (case img_shape E img0 of (h, w) \<Rightarrow>
                   (case update_info masked_image_save_dir camera_poses ks' w h 0 (frames s1) of
                      (Some e, fs) \<Rightarrow> Raised e (s1\<lparr>frames := fs\<rparr>)
                    | (None, fs) \<Rightarrow> Returned (s1\<lparr>frames := fs\<rparr>))))"

text \<open>The state a call leaves behind when it raises.\<close>

fun raised_state :: "'s outcome \<Rightarrow> (error \<times> 's) option" where
  "raised_state (Raised e s) = Some (e, s)"
| "raised_state (Returned s) = None"
| "raised_state NonFinite = None"

subsection \<open>Example data\<close>

text \<open>
  Concrete collaborators for the examples below. An image stands for its shape
  (height, width). The reconstruction is a list of points, translated and scaled
  pointwise. \<open>scene_carving\<close> and \<open>crop_images\<close> return what they are given.
  The coarse segmentation marks every pixel, the flow is zero everywhere, the
  prompted segmentation marks the pixels inside the box, and the labelling puts all
  foreground pixels in one component (right for the rectangles met here). The
  reductions are those of factor 1, which leave image and mask as they are. The
  mixed precision is that of numpy before version 2.
\<close>

definition example_collaborators :: "(nat \<times> nat, vec3 list) collaborators" where
  "example_collaborators =
     \<lparr>world_translate = (\<lambda>t. map (\<lambda>p. sub3 p (neg3 t))),
      world_scale = (\<lambda>k. map (scale3 k)),
      intrinsic_matrix = (\<lambda>c. ((cam_fx c, 0, cam_cx c), (0, cam_fy c, cam_cy c), (0, 0, 1))),
      scene_carving = (\<lambda>masks ks poses. poses),
      crop_images = (\<lambda>images masks ks. (images, ks, masks)),
      img_shape = (\<lambda>img. img),
      segment_img = (\<lambda>(h, w). replicate h (replicate w True)),
      sam = (\<lambda>img m. m),
      reduce_img = (\<lambda>r img. img),
      reduce_mask = (\<lambda>r. map (map (\<lambda>b. if b then 1 else 0))),
      raft_optical_flow_api = (\<lambda>(h, w) img1. replicate h (replicate w (0, 0))),
      segment_api = (\<lambda>(h, w) (x0, y0, x1, y1).
         map (\<lambda>y. map (\<lambda>x. x0 \<le> int x \<and> int x \<le> x1 \<and> y0 \<le> int y \<and> int y \<le> y1) [0..<w]) [0..<h]),
      connectedComponentsWithStats = (\<lambda>m.
         (map (map (\<lambda>b. if b then 1 else 0)) m,
          length (filter Not (concat m))
            # (if filter id (concat m) = [] then [] else [length (filter id (concat m))]))),
      mixed_precision = 53\<rparr>"

definition example_camera :: camera where
  "example_camera =
     \<lparr>cam_camera_param_model = ''PINHOLE'', cam_w = 4, cam_h = 4,
      cam_fx = 2, cam_fy = 2, cam_cx = 2, cam_cy = 2\<rparr>"

definition example_frame :: "string \<Rightarrow> vec3 \<Rightarrow> frame" where
  "example_frame path c =
     \<lparr>frame_image_path = path, frame_org_path = path, frame_mask_path = None,
      frame_pose = set_centre ((1, 0, 0, 0), (0, 1, 0, 0), (0, 0, 1, 0), (0, 0, 0, 1)) c,
      frame_camera = example_camera\<rparr>"

definition example_db :: "vec3 list option \<Rightarrow> vec3 list \<Rightarrow> vec3 list nuwadb" where
  "example_db rec cs =
     \<lparr>source = ''colmap'',
      frames = map (\<lambda>c. example_frame ''in.png'' c) cs,
      colmap_reconstruction = rec\<rparr>"

text \<open>The same collaborators, with a prompted segmentation that finds nothing.\<close>

definition blind_collaborators :: "(nat \<times> nat, vec3 list) collaborators" where
  "blind_collaborators =
     example_collaborators\<lparr>segment_api := (\<lambda>(h, w) b. replicate h (replicate w False))\<rparr>"

text \<open>
  Two frames with a reconstruction attached: the camera of the first is a pinhole, the
  camera of the second is not. The second dataset is the first after
  \<open>normalize_cameras\<close>.
\<close>

definition mixed_db :: "vec3 list nuwadb" where
  "mixed_db =
     \<lparr>source = ''colmap'',
      frames = [example_frame ''in0.png'' (0, 0, 0),
                (example_frame ''in1.png'' (4, 0, 0))
                  \<lparr>frame_camera := example_camera\<lparr>cam_camera_param_model := ''OPENCV''\<rparr>\<rparr>],
      colmap_reconstruction = Some []\<rparr>"

definition mixed_db_normalized :: "vec3 list nuwadb" where
  "mixed_db_normalized =
     mixed_db\<lparr>frames :=
        [example_frame ''in0.png'' (-1, 0, 0),
         (example_frame ''in1.png'' (1, 0, 0))
            \<lparr>frame_camera := example_camera\<lparr>cam_camera_param_model := ''OPENCV''\<rparr>\<rparr>]\<rparr>"



section \<open>Properties of the rounding\<close>

lemma round_even_of_int: "round_even (of_int m) = m"
  by (simp add: round_even_def)

lemma fl_zero: "fl p 0 = 0"
  by (simp add: fl_def)

lemma fl_of_nat:
  assumes "n < 2 ^ p"
  shows "fl p (real n) = real n"
proof (cases "n = 0")
  case True
  then show ?thesis by (simp add: fl_def)
next
  case False
  then have pos: "0 < int n" by simp
  define e where "e = bitlen (int n) - 1"
  have e0: "0 \<le> e" using pos by (simp add: e_def bitlen_alt_def)
  have lo: "2 ^ nat e \<le> int n" using bitlen_bounds [OF pos] by (simp add: e_def)
  have "int n < 2 ^ p" using assms by simp
  with lo have "(2::int) ^ nat e < 2 ^ p" by (rule le_less_trans)
  then have ep: "nat e < p" by simp
  define k where "k = p - 1 - nat e"
  have k: "int p = e + 1 + int k" using ep e0 by (simp add: k_def)
  have ex: "exponent (real n) = e"
    using False by (simp add: exponent_def e_def)
  have u: "2 powi (e - int p + 1) = 1 / (2::real) ^ k"
  proof -
    have "e - int p + 1 = - int k" using k by simp
    then show ?thesis by (simp add: power_int_minus divide_inverse)
  qed
  have "real n * 2 ^ k = of_int (int n * 2 ^ k)" by simp
  then have r: "round_even (real n * 2 ^ k) = int n * 2 ^ k"
    by (simp only: round_even_of_int)
  show ?thesis
    using False by (simp add: fl_def ex u r Let_def)
qed

section \<open>Properties of the pose utilities\<close>

lemma matmul_flip_yz:
  "matmul ((a0, a1, a2, a3), (b0, b1, b2, b3), (c0, c1, c2, c3), (d0, d1, d2, d3)) flip_yz =
     ((a0, - a1, - a2, a3), (b0, - b1, - b2, b3), (c0, - c1, - c2, c3), (d0, - d1, - d2, d3))"
  by (simp add: flip_yz_def)

lemma matmul_rot90:
  "matmul ((a0, a1, a2, a3), (b0, b1, b2, b3), (c0, c1, c2, c3), (d0, d1, d2, d3)) rot90 =
     ((- a1, a0, a2, a3), (- b1, b0, b2, b3), (- c1, c0, c2, c3), (- d1, d0, d2, d3))"
  by (simp add: rot90_def)

lemma mat4_cases:
  obtains a0 a1 a2 a3 b0 b1 b2 b3 c0 c1 c2 c3 d0 d1 d2 d3 where
    "(P :: mat4) = ((a0, a1, a2, a3), (b0, b1, b2, b3), (c0, c1, c2, c3), (d0, d1, d2, d3))"
  by (metis prod.collapse)

lemma flip_yz_involution: "matmul (matmul P flip_yz) flip_yz = P"
  by (rule mat4_cases [of P]) (simp only: matmul_flip_yz minus_minus)

text \<open>
  C6. For every pose \<open>P\<close>, converting cv to gl and back gives \<open>P\<close>; for accepted
  conventions \<open>a\<close> and \<open>b\<close> that agree once \<open>blender\<close> is read as \<open>gl\<close>, the pose is
  returned unchanged; and cv to gl and gl to cv are the same right multiplication by
  diag(1, -1, -1, 1).
\<close>

theorem convert_camera_pose_round_trip:
  "bind_err (convert_camera_pose P ''cv'' ''gl'') (\<lambda>Q. convert_camera_pose Q ''gl'' ''cv'') = Inr P
   \<and> (a \<in> set accepted_types \<and> b \<in> set accepted_types \<and> gl_of_blender a = gl_of_blender b
        \<longrightarrow> convert_camera_pose P a b = Inr P)
   \<and> convert_camera_pose P ''cv'' ''gl'' = Inr (matmul P flip_yz)
   \<and> convert_camera_pose P ''gl'' ''cv'' = Inr (matmul P flip_yz)
   \<and> flip_yz = ((1, 0, 0, 0), (0, -1, 0, 0), (0, 0, -1, 0), (0, 0, 0, 1))"
  by (simp add: convert_camera_pose_def accepted_types_def gl_of_blender_def
      flip_yz_involution) (simp add: flip_yz_def)

theorem convert_camera_pose_round_trip_witness:
  "''blender'' \<in> set accepted_types \<and> ''gl'' \<in> set accepted_types
   \<and> gl_of_blender ''blender'' = gl_of_blender ''gl''
   \<and> convert_camera_pose ((1, 2, 3, 4), (5, 6, 7, 8), (9, 10, 11, 12), (0, 0, 0, 1))
        ''blender'' ''gl''
      = Inr ((1, 2, 3, 4), (5, 6, 7, 8), (9, 10, 11, 12), (0, 0, 0, 1))"
  using convert_camera_pose_round_trip
    [of "((1, 2, 3, 4), (5, 6, 7, 8), (9, 10, 11, 12), (0, 0, 0, 1))" "''blender''" "''gl''"]
  by (simp add: accepted_types_def gl_of_blender_def)

lemma rot90_four: "matmul (matmul (matmul (matmul P rot90) rot90) rot90) rot90 = P"
  by (rule mat4_cases [of P]) (simp only: matmul_rot90 minus_minus)

lemma four_rot90:
  "(case get_rot90_camera_matrices P fx fy cx cy h of (P1, fx1, fy1, cx1, cy1) \<Rightarrow>
    case get_rot90_camera_matrices P1 fx1 fy1 cx1 cy1 w of (P2, fx2, fy2, cx2, cy2) \<Rightarrow>
    case get_rot90_camera_matrices P2 fx2 fy2 cx2 cy2 h of (P3, fx3, fy3, cx3, cy3) \<Rightarrow>
      get_rot90_camera_matrices P3 fx3 fy3 cx3 cy3 w)
   = (P, fx, fy, float64 (w - float64 (w - cx)), float64 (h - float64 (h - cy)))"
  by (simp only: get_rot90_camera_matrices_def Let_def prod.case rot90_four)

lemma float64_ex1: "float64 (640 - 3521955646092083 / 2 ^ 45) = 4749010622690099 / 2 ^ 43"
  unfolding float64_def by code_simp

lemma float64_ex2: "float64 (640 - 4749010622690099 / 2 ^ 43) = 880488911523021 / 2 ^ 43"
  unfolding float64_def by code_simp

lemma float64_ex3: "float64 (480 - float64 (480 - 240)) = 240"
  unfolding float64_def by code_simp

text \<open>
  C7, as the code has it. Four applications of \<open>get_rot90_camera_matrices\<close>, each fed
  the outputs of the one before and the current image height (\<open>h\<close>, \<open>w\<close>, \<open>h\<close>,
  \<open>w\<close>), return the original pose, \<open>fx\<close> and \<open>fy\<close>, and for the principal point
  what the two subtractions of line 64 leave of it in float64: \<open>w - (w - cx)\<close> and
  \<open>h - (h - cy)\<close>, each difference rounded. These are \<open>cx\<close> and \<open>cy\<close> when \<open>cx\<close>,
  \<open>cy\<close>, \<open>w - cx\<close> and \<open>h - cy\<close> are float64 numbers.
\<close>

theorem get_rot90_camera_matrices_four_times:
  "(case get_rot90_camera_matrices P fx fy cx cy h of (P1, fx1, fy1, cx1, cy1) \<Rightarrow>
    case get_rot90_camera_matrices P1 fx1 fy1 cx1 cy1 w of (P2, fx2, fy2, cx2, cy2) \<Rightarrow>
    case get_rot90_camera_matrices P2 fx2 fy2 cx2 cy2 h of (P3, fx3, fy3, cx3, cy3) \<Rightarrow>
      get_rot90_camera_matrices P3 fx3 fy3 cx3 cy3 w)
   = (P, fx, fy, float64 (w - float64 (w - cx)), float64 (h - float64 (h - cy)))
   \<and> (float64 cx = cx \<and> float64 (w - cx) = w - cx \<and> float64 cy = cy \<and> float64 (h - cy) = h - cy
        \<longrightarrow>
      (case get_rot90_camera_matrices P fx fy cx cy h of (P1, fx1, fy1, cx1, cy1) \<Rightarrow>
       case get_rot90_camera_matrices P1 fx1 fy1 cx1 cy1 w of (P2, fx2, fy2, cx2, cy2) \<Rightarrow>
       case get_rot90_camera_matrices P2 fx2 fy2 cx2 cy2 h of (P3, fx3, fy3, cx3, cy3) \<Rightarrow>
         get_rot90_camera_matrices P3 fx3 fy3 cx3 cy3 w)
      = (P, fx, fy, cx, cy))"
  unfolding four_rot90 by simp

theorem get_rot90_camera_matrices_four_times_witness:
  "float64 (641 / 2) = 641 / 2 \<and> float64 (640 - 641 / 2) = 640 - 641 / 2
   \<and> float64 (961 / 4) = 961 / 4 \<and> float64 (480 - 961 / 4) = 480 - 961 / 4
   \<and> (case get_rot90_camera_matrices ((1, 0, 0, 2), (0, 1, 0, 3), (0, 0, 1, 4), (0, 0, 0, 1))
               500 600 (641 / 2) (961 / 4) 480 of (P1, fx1, fy1, cx1, cy1) \<Rightarrow>
       case get_rot90_camera_matrices P1 fx1 fy1 cx1 cy1 640 of (P2, fx2, fy2, cx2, cy2) \<Rightarrow>
       case get_rot90_camera_matrices P2 fx2 fy2 cx2 cy2 480 of (P3, fx3, fy3, cx3, cy3) \<Rightarrow>
         get_rot90_camera_matrices P3 fx3 fy3 cx3 cy3 640)
      = (((1, 0, 0, 2), (0, 1, 0, 3), (0, 0, 1, 4), (0, 0, 0, 1)), 500, 600, 641 / 2, 961 / 4)"
proof -
  have a: "float64 (641 / 2) = 641 / 2" unfolding float64_def by code_simp
  have b: "float64 (640 - 641 / 2) = 640 - 641 / 2" unfolding float64_def by code_simp
  have c: "float64 (961 / 4) = 961 / 4" unfolding float64_def by code_simp
  have d: "float64 (480 - 961 / 4) = 480 - 961 / 4" unfolding float64_def by code_simp
  from get_rot90_camera_matrices_four_times
    [where P = "((1, 0, 0, 2), (0, 1, 0, 3), (0, 0, 1, 4), (0, 0, 0, 1))" and fx = 500
      and fy = 600 and cx = "641 / 2" and cy = "961 / 4" and h = 480 and w = 640]
  have "(case get_rot90_camera_matrices ((1, 0, 0, 2), (0, 1, 0, 3), (0, 0, 1, 4), (0, 0, 0, 1))
               500 600 (641 / 2) (961 / 4) 480 of (P1, fx1, fy1, cx1, cy1) \<Rightarrow>
       case get_rot90_camera_matrices P1 fx1 fy1 cx1 cy1 640 of (P2, fx2, fy2, cx2, cy2) \<Rightarrow>
       case get_rot90_camera_matrices P2 fx2 fy2 cx2 cy2 480 of (P3, fx3, fy3, cx3, cy3) \<Rightarrow>
         get_rot90_camera_matrices P3 fx3 fy3 cx3 cy3 640)
      = (((1, 0, 0, 2), (0, 1, 0, 3), (0, 0, 1, 4), (0, 0, 0, 1)), 500, 600, 641 / 2, 961 / 4)"
    using a b c d by blast
  with a b c d show ?thesis by (intro conjI)
qed

text \<open>
  A principal point at the float64 nearest to 100.1 in an image 640 wide: 640 - 100.1
  rounds to the float64 nearest to 539.9, and 640 minus that is 100.10000000000002, two
  units in the last place above \<open>cx\<close>.
\<close>

theorem get_rot90_camera_matrices_four_times_counterexample:
  "(case get_rot90_camera_matrices ((1, 0, 0, 2), (0, 1, 0, 3), (0, 0, 1, 4), (0, 0, 0, 1))
           500 600 (3521955646092083 / 2 ^ 45) 240 480 of (P1, fx1, fy1, cx1, cy1) \<Rightarrow>
    case get_rot90_camera_matrices P1 fx1 fy1 cx1 cy1 640 of (P2, fx2, fy2, cx2, cy2) \<Rightarrow>
    case get_rot90_camera_matrices P2 fx2 fy2 cx2 cy2 480 of (P3, fx3, fy3, cx3, cy3) \<Rightarrow>
      get_rot90_camera_matrices P3 fx3 fy3 cx3 cy3 640)
   = (((1, 0, 0, 2), (0, 1, 0, 3), (0, 0, 1, 4), (0, 0, 0, 1)), 500, 600,
      880488911523021 / 2 ^ 43, 240)
   \<and> float64 (3521955646092083 / 2 ^ 45) = 3521955646092083 / 2 ^ 45
   \<and> (880488911523021 / 2 ^ 43 :: real) \<noteq> 3521955646092083 / 2 ^ 45"
proof -
  have r: "float64 (3521955646092083 / 2 ^ 45) = 3521955646092083 / 2 ^ 45"
    unfolding float64_def by code_simp
  have n: "(880488911523021 / 2 ^ 43 :: real) \<noteq> 3521955646092083 / 2 ^ 45" by simp
  show ?thesis
    unfolding four_rot90 float64_ex1 float64_ex2 float64_ex3 using r n by simp
qed

text \<open>
  C9. The pose returned by \<open>get_rot90_camera_matrices\<close> has the third column
  (viewing axis) and the fourth column (camera centre) of the input pose.
\<close>

theorem get_rot90_camera_matrices_keeps_columns:
  "column (fst (get_rot90_camera_matrices P fx fy cx cy h)) 2 = column P 2
   \<and> column (fst (get_rot90_camera_matrices P fx fy cx cy h)) 3 = column P 3"
  by (rule mat4_cases [of P])
     (simp add: get_rot90_camera_matrices_def matmul_rot90 del: matmul.simps)

section \<open>Properties of normalize\_cameras\<close>













lemma normalize_cameras_unfold:
  assumes "frames db \<noteq> []" and "colmap_reconstruction db = Some rec0"
    and "cs = map centre (map frame_pose (frames db))"
    and "centred = map (\<lambda>c. sub3 c (offset_of positive_z cs)) cs"
    and "biggest = Max (set (map norm3 centred))"
  shows "normalize_cameras E positive_z s db =
    (if biggest = 0 then NonFinite
     else Returned (db
       \<lparr>frames := map (\<lambda>(f, c). f\<lparr>frame_pose := set_centre (frame_pose f) c\<rparr>)
                      (zip (frames db) (map (scale3 (s / biggest)) centred)),
        colmap_reconstruction :=
          Some (world_scale E (s / biggest)
                 (world_translate E (neg3 (offset_of positive_z cs)) rec0))\<rparr>))"
  unfolding assms(3-5) normalize_cameras_def Let_def offset_of_def
  using assms(1,2) by simp

lemma coinciding_set:
  assumes "cs \<noteq> []" "\<forall>c \<in> set cs. c = c0"
  shows "f ` set cs = {f c0}"
  using assms by (cases cs) auto

lemma offset_of_coinciding:
  assumes "cs \<noteq> []" "\<forall>c \<in> set cs. c = c0"
  shows "offset_of positive_z cs = c0"
  by (cases c0) (simp add: offset_of_def coinciding_set [OF assms])

lemma sub3_self: "sub3 c c = (0, 0, 0)"
  by (cases c) simp




text \<open>
  C3, as the code has it. There is no guard: with a reconstruction attached and
  camera centres that all coincide (a single frame among them), the largest centred
  norm is zero, the division is carried out, and the call does not raise.
\<close>

theorem normalize_cameras_coinciding:
  assumes fr: "frames db \<noteq> []"
    and r: "colmap_reconstruction db = Some rec0"
    and same: "\<forall>c \<in> set (centres db). \<forall>d \<in> set (centres db). c = d"
  shows "normalize_cameras E positive_z s db = NonFinite"
proof -
  define cs where "cs = map centre (map frame_pose (frames db))"
  have cs: "cs = centres db" by (simp add: cs_def centres_def)
  have ne: "cs \<noteq> []" using fr by (simp add: cs_def)
  then obtain c0 where c0: "c0 \<in> set cs" by (cases cs) auto
  have all: "\<forall>c \<in> set cs. c = c0" using same c0 unfolding cs by blast
  have off: "offset_of positive_z cs = c0" using ne all by (rule offset_of_coinciding)
  have "set (map norm3 (map (\<lambda>c. sub3 c c0) cs)) = {0}"
    using coinciding_set [OF ne all, of "\<lambda>c. norm3 (sub3 c c0)"]
    by (simp add: sub3_self image_image)
  then have "Max (set (map norm3 (map (\<lambda>c. sub3 c (offset_of positive_z cs)) cs))) = 0"
    unfolding off by simp
  then show ?thesis
    by (simp add: normalize_cameras_unfold [OF fr r cs_def refl refl])
qed

theorem normalize_cameras_coinciding_witness:
  "frames (example_db (Some []) [(5, 6, 7), (5, 6, 7)]) \<noteq> []
   \<and> colmap_reconstruction (example_db (Some []) [(5, 6, 7), (5, 6, 7)]) = Some []
   \<and> list_all (\<lambda>c. list_all (\<lambda>d. c = d) (centres (example_db (Some []) [(5, 6, 7), (5, 6, 7)])))
        (centres (example_db (Some []) [(5, 6, 7), (5, 6, 7)]))
   \<and> normalize_cameras example_collaborators False (11 / 10)
        (example_db (Some []) [(5, 6, 7), (5, 6, 7)]) = NonFinite"
proof -
  have fr: "frames (example_db (Some []) [(5, 6, 7), (5, 6, 7)]) \<noteq> []"
    by (simp add: example_db_def)
  have r: "colmap_reconstruction (example_db (Some []) [(5, 6, 7), (5, 6, 7)]) = Some []"
    by (simp add: example_db_def)
  have same: "\<forall>c \<in> set (centres (example_db (Some []) [(5, 6, 7), (5, 6, 7)])).
        \<forall>d \<in> set (centres (example_db (Some []) [(5, 6, 7), (5, 6, 7)])). c = d"
    by (simp add: example_db_def example_frame_def centres_def)
  show ?thesis
    using fr r same
      normalize_cameras_coinciding [OF fr r same, of example_collaborators False "11 / 10"]
    by (simp add: list_all_iff)
qed

text \<open>A single frame, reconstruction attached: the call does not raise.\<close>

theorem normalize_cameras_single_frame_counterexample:
  "normalize_cameras example_collaborators True 1 (example_db (Some []) [(5, 6, 7)]) = NonFinite
   \<and> \<not> raises (normalize_cameras example_collaborators True 1 (example_db (Some []) [(5, 6, 7)]))"
  by (simp add: normalize_cameras_def example_db_def example_frame_def Let_def)

text \<open>
  C8. With no reconstruction attached, line 213 calls \<open>world_translate\<close> on \<open>None\<close>:
  the call raises, and no pose has been written.
\<close>

theorem normalize_cameras_without_reconstruction:
  "normalize_cameras example_collaborators True 1 (example_db None [(0, 0, 0), (4, 0, 0)])
     = Raised AttributeError (example_db None [(0, 0, 0), (4, 0, 0)])
   \<and> raises (normalize_cameras example_collaborators True 1
        (example_db None [(0, 0, 0), (4, 0, 0)]))"
  by (simp add: normalize_cameras_def example_db_def example_frame_def Let_def)

section \<open>Properties of mask propagation\<close>

lemma set_nonzero:
  "set (nonzero m) = {(y, x). y < length m \<and> x < length (m ! y) \<and> m ! y ! x}"
  by (auto simp: nonzero_def)

lemma set_nonzero_full: "set (nonzero (full_mask H W)) = {0..<H} \<times> {0..<W}"
  by (auto simp: set_nonzero full_mask_def)

lemma Min_real_upt: "0 < n \<Longrightarrow> Min (real ` {0..<n}) = 0"
  by (rule Min_eqI) auto

lemma Max_real_upt:
  assumes "0 < n"
  shows "Max (real ` {0..<n}) = real (n - 1)"
proof (rule Max_eqI)
  show "finite (real ` {0..<n})" by simp
  show "real (n - 1) \<in> real ` {0..<n}" using assms by (intro imageI) simp
  fix y assume "y \<in> real ` {0..<n}"
  then obtain k where k: "k < n" "y = real k" by auto
  then have "k \<le> n - 1" by simp
  then show "y \<le> real (n - 1)" unfolding k(2) by (rule of_nat_mono)
qed

lemma float32_of_nat: "n < 2 ^ 24 \<Longrightarrow> float32 (real n) = real n"
  unfolding float32_def by (rule fl_of_nat)

lemma warp_identity:
  assumes "y < H" "x < W" "H \<le> 2 ^ 24" "W \<le> 2 ^ 24"
  shows "warp (identity_flow H W) (y, x) = (real x, real y)"
proof -
  have "x < 2 ^ 24" "y < 2 ^ 24" using assms by simp_all
  then have "float32 (real x) = real x" "float32 (real y) = real y"
    by (simp_all only: float32_of_nat)
  then show ?thesis using assms(1,2) by (simp add: warp_def identity_flow_def)
qed

lemma in_range_identity:
  "y < H \<Longrightarrow> x < W \<Longrightarrow> in_range (identity_flow H W) (y, x)"
  by (simp add: in_range_def identity_flow_def)

lemma warped_xs:
  assumes "0 < H" "H \<le> 2 ^ 24" "W \<le> 2 ^ 24"
  shows "(\<lambda>p. fst (warp (identity_flow H W) p)) ` ({0..<H} \<times> {0..<W}) = real ` {0..<W}"
proof -
  have "fst (warp (identity_flow H W) p) = real (snd p)" if "p \<in> {0..<H} \<times> {0..<W}" for p
    using that assms(2,3) by (cases p) (simp add: warp_identity)
  then have "(\<lambda>p. fst (warp (identity_flow H W) p)) ` ({0..<H} \<times> {0..<W})
      = (\<lambda>p. real (snd p)) ` ({0..<H} \<times> {0..<W})"
    by (intro image_cong) auto
  also have "\<dots> = real ` snd ` ({0..<H} \<times> {0..<W})" by (simp only: image_image)
  also have "snd ` ({0..<H} \<times> {0..<W}) = {0..<W}" using assms(1) by simp
  finally show ?thesis .
qed

lemma warped_ys:
  assumes "0 < W" "H \<le> 2 ^ 24" "W \<le> 2 ^ 24"
  shows "(\<lambda>p. snd (warp (identity_flow H W) p)) ` ({0..<H} \<times> {0..<W}) = real ` {0..<H}"
proof -
  have "snd (warp (identity_flow H W) p) = real (fst p)" if "p \<in> {0..<H} \<times> {0..<W}" for p
    using that assms(2,3) by (cases p) (simp add: warp_identity)
  then have "(\<lambda>p. snd (warp (identity_flow H W) p)) ` ({0..<H} \<times> {0..<W})
      = (\<lambda>p. real (fst p)) ` ({0..<H} \<times> {0..<W})"
    by (intro image_cong) auto
  also have "\<dots> = real ` fst ` ({0..<H} \<times> {0..<W})" by (simp only: image_image)
  also have "fst ` ({0..<H} \<times> {0..<W}) = {0..<H}" using assms(1) by simp
  finally show ?thesis .
qed

lemma frame_bbox_sets:
  assumes "\<forall>q \<in> set (nonzero ref). in_range flow q" and "nonzero ref \<noteq> []"
    and "X = (\<lambda>q. fst (warp flow q)) ` set (nonzero ref)"
    and "Y = (\<lambda>q. snd (warp flow q)) ` set (nonzero ref)"
  shows "frame_bbox p rf s ref flow =
     Inr (trunc (fl p (Min X - fl p (float32 (Max X - Min X) * fl p s))) * rf,
          trunc (fl p (Min Y - fl p (float32 (Max Y - Min Y) * fl p s))) * rf,
          trunc (fl p (Max X + fl p (float32 (Max X - Min X) * fl p s))) * rf,
          trunc (fl p (Max Y + fl p (float32 (Max Y - Min Y) * fl p s))) * rf)"
  unfolding assms(3,4) using assms(1,2)
  by (simp add: frame_bbox_def Let_def list_all_iff image_image)

lemma frame_bbox_full:
  assumes "0 < H" "0 < W" "H \<le> 2 ^ 24" "W \<le> 2 ^ 24"
  shows "frame_bbox p rf s (full_mask H W) (identity_flow H W) =
     Inr (trunc (fl p (0 - fl p (real (W - 1) * fl p s))) * rf,
          trunc (fl p (0 - fl p (real (H - 1) * fl p s))) * rf,
          trunc (fl p (real (W - 1) + fl p (real (W - 1) * fl p s))) * rf,
          trunc (fl p (real (H - 1) + fl p (real (H - 1) * fl p s))) * rf)"
proof -
  have "(0, 0) \<in> {0..<H} \<times> {0..<W}" using assms(1,2) by simp
  then have "(0, 0) \<in> set (nonzero (full_mask H W))" by (simp only: set_nonzero_full)
  then have ne: "nonzero (full_mask H W) \<noteq> []" by auto
  have rng: "\<forall>q \<in> set (nonzero (full_mask H W)). in_range (identity_flow H W) q"
    by (auto simp: set_nonzero_full in_range_identity)
  have X: "real ` {0..<W} = (\<lambda>q. fst (warp (identity_flow H W) q)) ` set (nonzero (full_mask H W))"
    by (simp only: set_nonzero_full warped_xs [OF assms(1,3,4)])
  have Y: "real ` {0..<H} = (\<lambda>q. snd (warp (identity_flow H W) q)) ` set (nonzero (full_mask H W))"
    by (simp only: set_nonzero_full warped_ys [OF assms(2,3,4)])
  have "W - 1 < 2 ^ 24" "H - 1 < 2 ^ 24" using assms by simp_all
  then have w: "float32 (real (W - 1)) = real (W - 1)" and h: "float32 (real (H - 1)) = real (H - 1)"
    by (simp_all only: float32_of_nat)
  show ?thesis
    unfolding frame_bbox_sets [OF rng ne X Y]
    by (simp only: Min_real_upt [OF assms(1)] Min_real_upt [OF assms(2)]
        Max_real_upt [OF assms(1)] Max_real_upt [OF assms(2)] diff_zero w h)
qed

lemma frame_bbox_extremes:
  assumes ne: "nonzero ref \<noteq> []" and rng: "list_all (in_range flow) (nonzero ref)"
  shows "\<exists>xmin xmax ymin ymax.
      (\<exists>y x. y < length ref \<and> x < length (ref ! y) \<and> ref ! y ! x
         \<and> xmin = float32 (float32 (real x) + fst (flow ! y ! x)))
    \<and> (\<forall>y x. y < length ref \<and> x < length (ref ! y) \<and> ref ! y ! x
         \<longrightarrow> xmin \<le> float32 (float32 (real x) + fst (flow ! y ! x)))
    \<and> (\<exists>y x. y < length ref \<and> x < length (ref ! y) \<and> ref ! y ! x
         \<and> xmax = float32 (float32 (real x) + fst (flow ! y ! x)))
    \<and> (\<forall>y x. y < length ref \<and> x < length (ref ! y) \<and> ref ! y ! x
         \<longrightarrow> float32 (float32 (real x) + fst (flow ! y ! x)) \<le> xmax)
    \<and> (\<exists>y x. y < length ref \<and> x < length (ref ! y) \<and> ref ! y ! x
         \<and> ymin = float32 (float32 (real y) + snd (flow ! y ! x)))
    \<and> (\<forall>y x. y < length ref \<and> x < length (ref ! y) \<and> ref ! y ! x
         \<longrightarrow> ymin \<le> float32 (float32 (real y) + snd (flow ! y ! x)))
    \<and> (\<exists>y x. y < length ref \<and> x < length (ref ! y) \<and> ref ! y ! x
         \<and> ymax = float32 (float32 (real y) + snd (flow ! y ! x)))
    \<and> (\<forall>y x. y < length ref \<and> x < length (ref ! y) \<and> ref ! y ! x
         \<longrightarrow> float32 (float32 (real y) + snd (flow ! y ! x)) \<le> ymax)
    \<and> frame_bbox p rf s ref flow =
        Inr (trunc (fl p (xmin - fl p (float32 (xmax - xmin) * fl p s))) * rf,
             trunc (fl p (ymin - fl p (float32 (ymax - ymin) * fl p s))) * rf,
             trunc (fl p (xmax + fl p (float32 (xmax - xmin) * fl p s))) * rf,
             trunc (fl p (ymax + fl p (float32 (ymax - ymin) * fl p s))) * rf)"
proof -
  define X where "X = (\<lambda>q. fst (warp flow q)) ` set (nonzero ref)"
  define Y where "Y = (\<lambda>q. snd (warp flow q)) ` set (nonzero ref)"
  have fin: "finite X" "finite Y" by (simp_all add: X_def Y_def)
  have nonempty: "X \<noteq> {}" "Y \<noteq> {}" using ne by (simp_all add: X_def Y_def)
  have rng': "\<forall>q \<in> set (nonzero ref). in_range flow q" using rng by (simp add: list_all_iff)
  have memX: "v \<in> X \<longleftrightarrow> (\<exists>y x. y < length ref \<and> x < length (ref ! y) \<and> ref ! y ! x
         \<and> v = float32 (float32 (real x) + fst (flow ! y ! x)))" for v
    by (auto simp: X_def set_nonzero warp_def image_iff)
  have memY: "v \<in> Y \<longleftrightarrow> (\<exists>y x. y < length ref \<and> x < length (ref ! y) \<and> ref ! y ! x
         \<and> v = float32 (float32 (real y) + snd (flow ! y ! x)))" for v
    by (auto simp: Y_def set_nonzero warp_def image_iff)
  have a1: "\<exists>y x. y < length ref \<and> x < length (ref ! y) \<and> ref ! y ! x
         \<and> Min X = float32 (float32 (real x) + fst (flow ! y ! x))"
    using Min_in [OF fin(1) nonempty(1)] by (simp only: memX)
  have a2: "\<forall>y x. y < length ref \<and> x < length (ref ! y) \<and> ref ! y ! x
         \<longrightarrow> Min X \<le> float32 (float32 (real x) + fst (flow ! y ! x))"
    using Min_le [OF fin(1)] memX by blast
  have a3: "\<exists>y x. y < length ref \<and> x < length (ref ! y) \<and> ref ! y ! x
         \<and> Max X = float32 (float32 (real x) + fst (flow ! y ! x))"
    using Max_in [OF fin(1) nonempty(1)] by (simp only: memX)
  have a4: "\<forall>y x. y < length ref \<and> x < length (ref ! y) \<and> ref ! y ! x
         \<longrightarrow> float32 (float32 (real x) + fst (flow ! y ! x)) \<le> Max X"
    using Max_ge [OF fin(1)] memX by blast
  have b1: "\<exists>y x. y < length ref \<and> x < length (ref ! y) \<and> ref ! y ! x
         \<and> Min Y = float32 (float32 (real y) + snd (flow ! y ! x))"
    using Min_in [OF fin(2) nonempty(2)] by (simp only: memY)
  have b2: "\<forall>y x. y < length ref \<and> x < length (ref ! y) \<and> ref ! y ! x
         \<longrightarrow> Min Y \<le> float32 (float32 (real y) + snd (flow ! y ! x))"
    using Min_le [OF fin(2)] memY by blast
  have b3: "\<exists>y x. y < length ref \<and> x < length (ref ! y) \<and> ref ! y ! x
         \<and> Max Y = float32 (float32 (real y) + snd (flow ! y ! x))"
    using Max_in [OF fin(2) nonempty(2)] by (simp only: memY)
  have b4: "\<forall>y x. y < length ref \<and> x < length (ref ! y) \<and> ref ! y ! x
         \<longrightarrow> float32 (float32 (real y) + snd (flow ! y ! x)) \<le> Max Y"
    using Max_ge [OF fin(2)] memY by blast
  note box = frame_bbox_sets [OF rng' ne X_def Y_def, of p rf s]
  show ?thesis
    by (rule exI [of _ "Min X"], rule exI [of _ "Max X"], rule exI [of _ "Min Y"],
        rule exI [of _ "Max Y"]) (intro conjI a1 a2 a3 a4 b1 b2 b3 b4 box)
qed

lemma frame_bbox_empty: "nonzero ref = [] \<Longrightarrow> frame_bbox p rf s ref flow = Inl ValueError"
  by (simp add: frame_bbox_def)

lemma frame_bbox_nonempty:
  assumes "nonzero ref \<noteq> []" "list_all (in_range flow) (nonzero ref)"
  shows "\<exists>b. frame_bbox p rf s ref flow = Inr b"
  using assms by (simp add: frame_bbox_def Let_def)

lemma frame_bbox_Inr:
  assumes "frame_bbox p rf s ref flow = Inr b"
  shows "nonzero ref \<noteq> []" and "list_all (in_range flow) (nonzero ref)"
  using assms by (auto simp: frame_bbox_def Let_def split: if_splits)

lemma argmax_None: "argmax xs = None \<longleftrightarrow> xs = []"
  by (cases xs) (auto split: option.splits)

lemma argmax_first_max:
  "argmax xs = Some j \<Longrightarrow>
     j < length xs \<and> (\<forall>i < length xs. xs ! i \<le> xs ! j) \<and> (\<forall>i < j. xs ! i < xs ! j)"
proof (induction xs arbitrary: j)
  case Nil
  then show ?case by simp
next
  case (Cons x xs)
  show ?case
  proof (cases "argmax xs")
    case None
    then have "xs = []" by (simp add: argmax_None)
    with Cons.prems show ?thesis by simp
  next
    case (Some k)
    note IH = Cons.IH [OF Some]
    show ?thesis
    proof (cases "x < xs ! k")
      case True
      then have j: "j = Suc k" using Cons.prems Some by simp
      have "\<forall>i < length (x # xs). (x # xs) ! i \<le> (x # xs) ! j"
        using IH True unfolding j by (auto simp: nth_Cons split: nat.splits)
      moreover have "\<forall>i < j. (x # xs) ! i < (x # xs) ! j"
        using IH True unfolding j by (auto simp: nth_Cons split: nat.splits)
      ultimately show ?thesis using IH j by simp
    next
      case False
      then have j: "j = 0" using Cons.prems Some by simp
      have "(x # xs) ! i \<le> (x # xs) ! j" if "i < length (x # xs)" for i
      proof (cases i)
        case 0
        then show ?thesis by (simp add: j)
      next
        case (Suc n)
        then have "xs ! n \<le> xs ! k" using IH that by simp
        with False show ?thesis by (simp add: j Suc)
      qed
      then show ?thesis using j by simp
    qed
  qed
qed

lemma propagate_frame_bbox:
  "frame_bbox (mixed_precision E) rf s (ref_mask_of E rf prev_mask) (flow_of E rf prev_img img) = Inr b \<Longrightarrow>
   propagate_frame E rf s prev_img prev_mask img = Inr (cleaned E (segment_api E img b))"
  by (simp add: propagate_frame_def Let_def)

lemma propagate_frame_error:
  "frame_bbox (mixed_precision E) rf s (ref_mask_of E rf prev_mask) (flow_of E rf prev_img img) = Inl e \<Longrightarrow>
   propagate_frame E rf s prev_img prev_mask img = Inl e"
  by (simp add: propagate_frame_def Let_def)

lemma propagate_frame_Inr:
  assumes "propagate_frame E rf s prev_img prev_mask img = Inr m"
  shows "\<exists>b. frame_bbox (mixed_precision E) rf s (ref_mask_of E rf prev_mask) (flow_of E rf prev_img img) = Inr b
           \<and> m = cleaned E (segment_api E img b)"
  using assms by (auto simp: propagate_frame_def Let_def split: sum.splits)

lemma example_ref_mask: "ref_mask_of example_collaborators 1 (full_mask 2 2) = full_mask 2 2"
  by (simp add: ref_mask_of_def example_collaborators_def full_mask_def)

lemma example_flow: "flow_of example_collaborators 1 (2, 2) (2, 2) = identity_flow 2 2"
  by (simp add: flow_of_def example_collaborators_def identity_flow_def)

lemma masking_loop_steps:
  assumes "masking_loop E rf s imgs rest masks = Inr out"
    and "imgs = pre @ rest" and "length pre = length masks"
    and "\<forall>i. 0 < i \<and> i < length masks \<longrightarrow>
           propagate_frame E rf s (imgs ! (i - 1)) (masks ! (i - 1)) (imgs ! i) = Inr (masks ! i)"
  shows "length out = length imgs \<and>
         (\<forall>i. 0 < i \<and> i < length out \<longrightarrow>
           propagate_frame E rf s (imgs ! (i - 1)) (out ! (i - 1)) (imgs ! i) = Inr (out ! i))"
  using assms
proof (induction rest arbitrary: masks pre)
  case Nil
  then show ?case by simp
next
  case (Cons img rest)
  have img: "imgs ! length masks = img"
    using Cons.prems(2,3) by (metis nth_append_length)
  have split: "imgs = (pre @ [img]) @ rest" using Cons.prems(2) by simp
  show ?case
  proof (cases "length masks = 0")
    case True
    let ?m0 = "sam E img (segment_img E img)"
    have run: "masking_loop E rf s imgs rest (masks @ [?m0]) = Inr out"
      using Cons.prems(1) True by (simp add: Let_def)
    have len: "length (pre @ [img]) = length (masks @ [?m0])"
      using Cons.prems(3) by simp
    have inv: "\<forall>i. 0 < i \<and> i < length (masks @ [?m0]) \<longrightarrow>
        propagate_frame E rf s (imgs ! (i - 1)) ((masks @ [?m0]) ! (i - 1)) (imgs ! i)
          = Inr ((masks @ [?m0]) ! i)"
      using True by simp
    from Cons.IH [OF run split len inv] show ?thesis .
  next
    case False
    let ?i = "length masks"
    from False Cons.prems(1) obtain m where
      m: "propagate_frame E rf s (imgs ! (?i - 1)) (masks ! (?i - 1)) img = Inr m"
      and run: "masking_loop E rf s imgs rest (masks @ [m]) = Inr out"
      by (auto simp: Let_def split: sum.splits)
    have len: "length (pre @ [img]) = length (masks @ [m])"
      using Cons.prems(3) by simp
    have inv: "\<forall>i. 0 < i \<and> i < length (masks @ [m]) \<longrightarrow>
        propagate_frame E rf s (imgs ! (i - 1)) ((masks @ [m]) ! (i - 1)) (imgs ! i)
          = Inr ((masks @ [m]) ! i)"
    proof (intro allI impI)
      fix i assume i: "0 < i \<and> i < length (masks @ [m])"
      show "propagate_frame E rf s (imgs ! (i - 1)) ((masks @ [m]) ! (i - 1)) (imgs ! i)
          = Inr ((masks @ [m]) ! i)"
      proof (cases "i < ?i")
        case True
        then have p: "i - 1 < ?i" by simp
        have "(masks @ [m]) ! (i - 1) = masks ! (i - 1)" "(masks @ [m]) ! i = masks ! i"
          using True p by (simp_all only: nth_append if_True)
        moreover have "propagate_frame E rf s (imgs ! (i - 1)) (masks ! (i - 1)) (imgs ! i)
            = Inr (masks ! i)"
          using Cons.prems(4) i True by blast
        ultimately show ?thesis by simp
      next
        case False
        then have e: "i = ?i" using i by simp
        have p: "?i - 1 < ?i" using \<open>length masks \<noteq> 0\<close> by simp
        have "(masks @ [m]) ! (?i - 1) = masks ! (?i - 1)"
          using p by (simp only: nth_append if_True)
        moreover have "(masks @ [m]) ! ?i = m" by simp
        ultimately show ?thesis unfolding e using m img by simp
      qed
    qed
    from Cons.IH [OF run split len inv] show ?thesis .
  qed
qed

lemma calculate_masks_steps:
  assumes "calculate_masks E rf s imgs = Inr masks" and "0 < i" and "i < length imgs"
  shows "length masks = length imgs"
    and "propagate_frame E rf s (imgs ! (i - 1)) (masks ! (i - 1)) (imgs ! i) = Inr (masks ! i)"
proof -
  have "length masks = length imgs \<and>
         (\<forall>i. 0 < i \<and> i < length masks \<longrightarrow>
           propagate_frame E rf s (imgs ! (i - 1)) (masks ! (i - 1)) (imgs ! i) = Inr (masks ! i))"
    using assms(1) unfolding calculate_masks_def
    by (rule masking_loop_steps [where pre = "[]"]) simp_all
  then show "length masks = length imgs"
    and "propagate_frame E rf s (imgs ! (i - 1)) (masks ! (i - 1)) (imgs ! i) = Inr (masks ! i)"
    using assms(2,3) by simp_all
qed

lemma largest_component_cases:
  "if length stats \<le> 1 then largest_component seg labels stats = map (map (\<lambda>_. True)) seg
   else \<exists>m. 1 \<le> m \<and> m < length stats
          \<and> (\<forall>l. 1 \<le> l \<and> l < length stats \<longrightarrow> stats ! l \<le> stats ! m)
          \<and> (\<forall>l. 1 \<le> l \<and> l < m \<longrightarrow> stats ! l < stats ! m)
          \<and> largest_component seg labels stats = map (map (\<lambda>l. l = m)) labels"
proof (cases "length stats \<le> 1")
  case True
  then have "drop 1 stats = []" by simp
  then show ?thesis using True by (simp add: largest_component_def)
next
  case False
  then have ne: "drop 1 stats \<noteq> []" by simp
  then obtain j where j: "argmax (drop 1 stats) = Some j"
    using argmax_None [of "drop 1 stats"] by (cases "argmax (drop 1 stats)") auto
  from argmax_first_max [OF j]
  have jl: "j < length (drop 1 stats)"
    and mx: "\<forall>i < length (drop 1 stats). drop 1 stats ! i \<le> drop 1 stats ! j"
    and fs: "\<forall>i < j. drop 1 stats ! i < drop 1 stats ! j"
    by simp_all
  have nth: "drop 1 stats ! k = stats ! (k + 1)" if "k < length (drop 1 stats)" for k
    using that by simp
  have a: "1 \<le> j + 1 \<and> j + 1 < length stats" using jl by simp
  have b: "\<forall>l. 1 \<le> l \<and> l < length stats \<longrightarrow> stats ! l \<le> stats ! (j + 1)"
  proof (intro allI impI)
    fix l assume l: "1 \<le> l \<and> l < length stats"
    then have "l - 1 < length (drop 1 stats)" by (simp only: length_drop) linarith
    with mx have "drop 1 stats ! (l - 1) \<le> drop 1 stats ! j" by blast
    then show "stats ! l \<le> stats ! (j + 1)" using l jl by simp
  qed
  have c: "\<forall>l. 1 \<le> l \<and> l < j + 1 \<longrightarrow> stats ! l < stats ! (j + 1)"
  proof (intro allI impI)
    fix l assume l: "1 \<le> l \<and> l < j + 1"
    then have "l - 1 < j" by linarith
    with fs have "drop 1 stats ! (l - 1) < drop 1 stats ! j" by blast
    then show "stats ! l < stats ! (j + 1)" using l jl by simp
  qed
  have d: "largest_component seg labels stats = map (map (\<lambda>l. l = j + 1)) labels"
    using j by (simp add: largest_component_def)
  from a b c d False show ?thesis by auto
qed

lemma example_box:
  "frame_bbox 53 1 (1 / 50) (full_mask 2 2) (identity_flow 2 2) = Inr (0, 0, 1, 1)"
proof -
  have t0: "trunc (fl 53 (0 - fl 53 (real (2 - 1) * fl 53 (1 / 50)))) = 0" by code_simp
  have t1: "trunc (fl 53 (real (2 - 1) + fl 53 (real (2 - 1) * fl 53 (1 / 50)))) = 1" by code_simp
  have "frame_bbox 53 1 (1 / 50) (full_mask 2 2) (identity_flow 2 2) =
     Inr (trunc (fl 53 (0 - fl 53 (real (2 - 1) * fl 53 (1 / 50)))) * 1,
          trunc (fl 53 (0 - fl 53 (real (2 - 1) * fl 53 (1 / 50)))) * 1,
          trunc (fl 53 (real (2 - 1) + fl 53 (real (2 - 1) * fl 53 (1 / 50)))) * 1,
          trunc (fl 53 (real (2 - 1) + fl 53 (real (2 - 1) * fl 53 (1 / 50)))) * 1)"
    by (rule frame_bbox_full) simp_all
  then show ?thesis by (simp only: t0 t1) simp
qed

lemma example_precision: "mixed_precision example_collaborators = 53"
  by (simp add: example_collaborators_def)

lemma blind_precision: "mixed_precision blind_collaborators = 53"
  by (simp add: blind_collaborators_def example_collaborators_def)

lemma example_run:
  "calculate_masks example_collaborators 1 (1 / 50) [(2, 2), (2, 2)] = Inr [full_mask 2 2, full_mask 2 2]"
proof -
  have r: "ref_mask_of example_collaborators 1 (full_mask 2 2) = full_mask 2 2"
    by (rule example_ref_mask)
  have f: "flow_of example_collaborators 1 (2, 2) (2, 2) = identity_flow 2 2"
    by (rule example_flow)
  have u: "[0..<2] = [0, Suc 0]" by (simp add: upt_rec)
  have c: "cleaned example_collaborators (segment_api example_collaborators (2, 2) (0, 0, 1, 1))
      = full_mask 2 2"
    by (simp add: cleaned_def example_collaborators_def largest_component_def full_mask_def u
        numeral_2_eq_2)
  have p: "propagate_frame example_collaborators 1 (1 / 50) (2, 2) (full_mask 2 2) (2, 2)
      = Inr (full_mask 2 2)"
    by (simp add: propagate_frame_def r f example_precision example_box c)
  have s0: "sam example_collaborators (2, 2) (segment_img example_collaborators (2, 2)) = full_mask 2 2"
    by (simp add: example_collaborators_def full_mask_def)
  show ?thesis
    by (simp add: calculate_masks_def s0 p)
qed

lemma blind_run:
  "calculate_masks blind_collaborators 1 (1 / 50) [(2, 2), (2, 2)] = Inr [full_mask 2 2, full_mask 2 2]"
proof -
  have r: "ref_mask_of blind_collaborators 1 (full_mask 2 2) = full_mask 2 2"
    by (simp add: ref_mask_of_def blind_collaborators_def example_collaborators_def full_mask_def)
  have f: "flow_of blind_collaborators 1 (2, 2) (2, 2) = identity_flow 2 2"
    by (simp add: flow_of_def blind_collaborators_def example_collaborators_def identity_flow_def)
  have c: "cleaned blind_collaborators (segment_api blind_collaborators (2, 2) (0, 0, 1, 1))
      = full_mask 2 2"
    by (simp add: cleaned_def blind_collaborators_def example_collaborators_def
        largest_component_def full_mask_def numeral_2_eq_2)
  have p: "propagate_frame blind_collaborators 1 (1 / 50) (2, 2) (full_mask 2 2) (2, 2)
      = Inr (full_mask 2 2)"
    by (simp add: propagate_frame_def r f blind_precision example_box c)
  have s0: "sam blind_collaborators (2, 2) (segment_img blind_collaborators (2, 2)) = full_mask 2 2"
    by (simp add: blind_collaborators_def example_collaborators_def full_mask_def)
  show ?thesis
    by (simp add: calculate_masks_def s0 p)
qed

lemma propagate_frame_extremes:
  assumes "propagate_frame E rf s prev_img prev_mask img = Inr m"
    and "ref = ref_mask_of E rf prev_mask" and "flow = flow_of E rf prev_img img"
    and "p = mixed_precision E"
  shows "\<exists>xmin xmax ymin ymax.
      (\<exists>y x. y < length ref \<and> x < length (ref ! y) \<and> ref ! y ! x
         \<and> xmin = float32 (float32 (real x) + fst (flow ! y ! x)))
    \<and> (\<forall>y x. y < length ref \<and> x < length (ref ! y) \<and> ref ! y ! x
         \<longrightarrow> xmin \<le> float32 (float32 (real x) + fst (flow ! y ! x)))
    \<and> (\<exists>y x. y < length ref \<and> x < length (ref ! y) \<and> ref ! y ! x
         \<and> xmax = float32 (float32 (real x) + fst (flow ! y ! x)))
    \<and> (\<forall>y x. y < length ref \<and> x < length (ref ! y) \<and> ref ! y ! x
         \<longrightarrow> float32 (float32 (real x) + fst (flow ! y ! x)) \<le> xmax)
    \<and> (\<exists>y x. y < length ref \<and> x < length (ref ! y) \<and> ref ! y ! x
         \<and> ymin = float32 (float32 (real y) + snd (flow ! y ! x)))
    \<and> (\<forall>y x. y < length ref \<and> x < length (ref ! y) \<and> ref ! y ! x
         \<longrightarrow> ymin \<le> float32 (float32 (real y) + snd (flow ! y ! x)))
    \<and> (\<exists>y x. y < length ref \<and> x < length (ref ! y) \<and> ref ! y ! x
         \<and> ymax = float32 (float32 (real y) + snd (flow ! y ! x)))
    \<and> (\<forall>y x. y < length ref \<and> x < length (ref ! y) \<and> ref ! y ! x
         \<longrightarrow> float32 (float32 (real y) + snd (flow ! y ! x)) \<le> ymax)
    \<and> m = cleaned E (segment_api E img
        (trunc (fl p (xmin - fl p (float32 (xmax - xmin) * fl p s))) * rf,
         trunc (fl p (ymin - fl p (float32 (ymax - ymin) * fl p s))) * rf,
         trunc (fl p (xmax + fl p (float32 (xmax - xmin) * fl p s))) * rf,
         trunc (fl p (ymax + fl p (float32 (ymax - ymin) * fl p s))) * rf))"
proof -
  from propagate_frame_Inr [OF assms(1)] obtain b
    where b: "frame_bbox p rf s ref flow = Inr b"
      and m: "m = cleaned E (segment_api E img b)"
    unfolding assms(2,3,4) by blast
  have "m = cleaned E (segment_api E img c)" if "frame_bbox p rf s ref flow = Inr c" for c
    using that b m by simp
  then show ?thesis
    using frame_bbox_extremes [OF frame_bbox_Inr [OF b], of p rf s]
    by (elim exE conjE) (intro exI conjI; assumption?; blast)
qed

text \<open>
  C1, as the code has it. For every frame \<open>i > 0\<close> of a run that returns, the box that
  goes to the segmentation is computed from the foreground pixels of the downsampled
  previous mask, each moved by its flow vector in float32: the smallest and the largest
  moved \<open>x\<close> and \<open>y\<close> are taken, the extents are their differences in float32, each
  side is moved outwards by the extent times \<open>shrink\<close> at the precision \<open>p\<close> of the
  mixed operations, the result is truncated toward zero and multiplied by the reduce
  factor. Nothing in lines 130 to 138 clips the box, and the mask of frame \<open>i\<close> is the
  cleaned answer of the segmentation to that box. When the downsampled previous mask is
  all foreground, of \<open>H\<close> rows and \<open>W\<close> columns (at most \<open>2 ^ 24\<close>, so that float32
  holds every coordinate), and the flow moves nothing, the moved pixels span 0 to
  \<open>W - 1\<close> and 0 to \<open>H - 1\<close>.
\<close>

theorem calculate_masks_box:
  assumes "calculate_masks E rf s imgs = Inr masks" and "0 < i" and "i < length imgs"
  shows "let ref = ref_mask_of E rf (masks ! (i - 1));
             flow = flow_of E rf (imgs ! (i - 1)) (imgs ! i);
             p = mixed_precision E
         in (\<exists>xmin xmax ymin ymax.
               (\<exists>y x. y < length ref \<and> x < length (ref ! y) \<and> ref ! y ! x
                  \<and> xmin = float32 (float32 (real x) + fst (flow ! y ! x)))
             \<and> (\<forall>y x. y < length ref \<and> x < length (ref ! y) \<and> ref ! y ! x
                  \<longrightarrow> xmin \<le> float32 (float32 (real x) + fst (flow ! y ! x)))
             \<and> (\<exists>y x. y < length ref \<and> x < length (ref ! y) \<and> ref ! y ! x
                  \<and> xmax = float32 (float32 (real x) + fst (flow ! y ! x)))
             \<and> (\<forall>y x. y < length ref \<and> x < length (ref ! y) \<and> ref ! y ! x
                  \<longrightarrow> float32 (float32 (real x) + fst (flow ! y ! x)) \<le> xmax)
             \<and> (\<exists>y x. y < length ref \<and> x < length (ref ! y) \<and> ref ! y ! x
                  \<and> ymin = float32 (float32 (real y) + snd (flow ! y ! x)))
             \<and> (\<forall>y x. y < length ref \<and> x < length (ref ! y) \<and> ref ! y ! x
                  \<longrightarrow> ymin \<le> float32 (float32 (real y) + snd (flow ! y ! x)))
             \<and> (\<exists>y x. y < length ref \<and> x < length (ref ! y) \<and> ref ! y ! x
                  \<and> ymax = float32 (float32 (real y) + snd (flow ! y ! x)))
             \<and> (\<forall>y x. y < length ref \<and> x < length (ref ! y) \<and> ref ! y ! x
                  \<longrightarrow> float32 (float32 (real y) + snd (flow ! y ! x)) \<le> ymax)
             \<and> masks ! i = cleaned E (segment_api E (imgs ! i)
                 (trunc (fl p (xmin - fl p (float32 (xmax - xmin) * fl p s))) * rf,
                  trunc (fl p (ymin - fl p (float32 (ymax - ymin) * fl p s))) * rf,
                  trunc (fl p (xmax + fl p (float32 (xmax - xmin) * fl p s))) * rf,
                  trunc (fl p (ymax + fl p (float32 (ymax - ymin) * fl p s))) * rf)))
          \<and> (0 < H \<and> 0 < W \<and> H \<le> 2 ^ 24 \<and> W \<le> 2 ^ 24
               \<and> ref = full_mask H W \<and> flow = identity_flow H W
             \<longrightarrow> masks ! i = cleaned E (segment_api E (imgs ! i)
                 (trunc (fl p (0 - fl p (real (W - 1) * fl p s))) * rf,
                  trunc (fl p (0 - fl p (real (H - 1) * fl p s))) * rf,
                  trunc (fl p (real (W - 1) + fl p (real (W - 1) * fl p s))) * rf,
                  trunc (fl p (real (H - 1) + fl p (real (H - 1) * fl p s))) * rf)))"
proof -
  have step: "propagate_frame E rf s (imgs ! (i - 1)) (masks ! (i - 1)) (imgs ! i) = Inr (masks ! i)"
    using assms by (rule calculate_masks_steps(2))
  from propagate_frame_Inr [OF step] obtain b
    where b: "frame_bbox (mixed_precision E) rf s (ref_mask_of E rf (masks ! (i - 1)))
                (flow_of E rf (imgs ! (i - 1)) (imgs ! i)) = Inr b"
      and m: "masks ! i = cleaned E (segment_api E (imgs ! i) b)"
    by blast
  have scenario: "masks ! i = cleaned E (segment_api E (imgs ! i)
         (trunc (fl (mixed_precision E) (0 - fl (mixed_precision E) (real (W - 1) * fl (mixed_precision E) s))) * rf,
          trunc (fl (mixed_precision E) (0 - fl (mixed_precision E) (real (H - 1) * fl (mixed_precision E) s))) * rf,
          trunc (fl (mixed_precision E) (real (W - 1) + fl (mixed_precision E) (real (W - 1) * fl (mixed_precision E) s))) * rf,
          trunc (fl (mixed_precision E) (real (H - 1) + fl (mixed_precision E) (real (H - 1) * fl (mixed_precision E) s))) * rf))"
    if "0 < H" "0 < W" "H \<le> 2 ^ 24" "W \<le> 2 ^ 24"
      and r: "ref_mask_of E rf (masks ! (i - 1)) = full_mask H W"
      and f: "flow_of E rf (imgs ! (i - 1)) (imgs ! i) = identity_flow H W"
  proof -
    have "b = (trunc (fl (mixed_precision E) (0 - fl (mixed_precision E) (real (W - 1) * fl (mixed_precision E) s))) * rf,
          trunc (fl (mixed_precision E) (0 - fl (mixed_precision E) (real (H - 1) * fl (mixed_precision E) s))) * rf,
          trunc (fl (mixed_precision E) (real (W - 1) + fl (mixed_precision E) (real (W - 1) * fl (mixed_precision E) s))) * rf,
          trunc (fl (mixed_precision E) (real (H - 1) + fl (mixed_precision E) (real (H - 1) * fl (mixed_precision E) s))) * rf)"
      using b unfolding r f frame_bbox_full [OF that(1,2,3,4)] by (simp only: sum.inject)
    with m show ?thesis by (simp only:)
  qed
  show ?thesis
    unfolding Let_def
    by (rule conjI, rule propagate_frame_extremes [OF step refl refl refl])
       (intro impI, elim conjE, rule scenario)
qed

theorem calculate_masks_box_witness:
  "calculate_masks example_collaborators 1 (1 / 50) [(2, 2), (2, 2)]
      = Inr [full_mask 2 2, full_mask 2 2]
   \<and> (0::nat) < 1 \<and> 1 < length [(2::nat, 2::nat), (2, 2)]
   \<and> (0::nat) < 2 \<and> (2::nat) \<le> 2 ^ 24
   \<and> ref_mask_of example_collaborators 1 ([full_mask 2 2, full_mask 2 2] ! (1 - 1)) = full_mask 2 2
   \<and> flow_of example_collaborators 1 ([(2, 2), (2, 2)] ! (1 - 1)) ([(2, 2), (2, 2)] ! 1)
       = identity_flow 2 2
   \<and> [full_mask 2 2, full_mask 2 2] ! 1
       = cleaned example_collaborators (segment_api example_collaborators ([(2, 2), (2, 2)] ! 1)
           (0, 0, 1, 1))"
proof -
  have i0: "(0::nat) < 1" by simp
  have i1: "1 < length [(2::nat, 2::nat), (2, 2)]" by simp
  have two: "(0::nat) < 2" by simp
  have le: "(2::nat) \<le> 2 ^ 24" by simp
  have r: "ref_mask_of example_collaborators 1 ([full_mask 2 2, full_mask 2 2] ! (1 - 1))
      = full_mask 2 2"
    by (simp add: example_ref_mask)
  have f: "flow_of example_collaborators 1 ([(2, 2), (2, 2)] ! (1 - 1)) ([(2, 2), (2, 2)] ! 1)
      = identity_flow 2 2"
    by (simp add: example_flow)
  have t0: "trunc (fl 53 (0 - fl 53 (real (2 - 1) * fl 53 (1 / 50)))) * 1 = 0" by code_simp
  have t1: "trunc (fl 53 (real (2 - 1) + fl 53 (real (2 - 1) * fl 53 (1 / 50)))) * 1 = 1"
    by code_simp
  have "[full_mask 2 2, full_mask 2 2] ! 1
       = cleaned example_collaborators (segment_api example_collaborators ([(2, 2), (2, 2)] ! 1)
           (0, 0, 1, 1))"
    using calculate_masks_box [OF example_run i0 i1, where H = 2 and W = 2] two le r f
    unfolding Let_def example_precision t0 t1 by blast
  with example_run i0 i1 two le r f show ?thesis by (intro conjI)
qed

text \<open>
  An image of 152 by 152 pixels, all foreground, reduce factor 2 and shrink 0.02 (the
  defaults), flow zero: the downsampled mask is 76 by 76, the span 0 to 75 is widened
  by 1.5 on each side (75 times the float nearest to 0.02 rounds to 1.5 at either
  precision), and the box is (-2, -2, 152, 152), which leaves the image.
\<close>

theorem frame_bbox_unclipped_counterexample:
  "frame_bbox 53 2 default_shrink (full_mask 76 76) (identity_flow 76 76)
      = Inr (- 2, - 2, 152, 152)
   \<and> frame_bbox 24 2 default_shrink (full_mask 76 76) (identity_flow 76 76)
      = Inr (- 2, - 2, 152, 152)
   \<and> \<not> box_in_image 152 152 (- 2, - 2, 152, 152)"
proof -
  have a0: "trunc (fl 53 (0 - fl 53 (real (76 - 1) * fl 53 default_shrink))) * 2 = - 2"
    by code_simp
  have a1: "trunc (fl 53 (real (76 - 1) + fl 53 (real (76 - 1) * fl 53 default_shrink))) * 2 = 152"
    by code_simp
  have b0: "trunc (fl 24 (0 - fl 24 (real (76 - 1) * fl 24 default_shrink))) * 2 = - 2"
    by code_simp
  have b1: "trunc (fl 24 (real (76 - 1) + fl 24 (real (76 - 1) * fl 24 default_shrink))) * 2 = 152"
    by code_simp
  have pos: "(0::nat) < 76" and le: "(76::nat) \<le> 2 ^ 24" by simp_all
  have a: "frame_bbox 53 2 default_shrink (full_mask 76 76) (identity_flow 76 76)
      = Inr (- 2, - 2, 152, 152)"
    unfolding frame_bbox_full [OF pos pos le le] a0 a1 by (rule refl)
  have b: "frame_bbox 24 2 default_shrink (full_mask 76 76) (identity_flow 76 76)
      = Inr (- 2, - 2, 152, 152)"
    unfolding frame_bbox_full [OF pos pos le le] b0 b1 by (rule refl)
  have c: "\<not> box_in_image 152 152 (- 2, - 2, 152, 152)"
    by simp
  from a b c show ?thesis by (intro conjI)
qed

text \<open>
  C10. When the downsampled previous mask has no foreground pixel, the minimum of line
  130 raises and the frame's step fails with it: there is no fallback to a full mask
  there. When it has one (and the flow field covers the mask), the reductions are
  over nonempty arrays and the step yields a box and a mask.
\<close>

theorem propagate_frame_needs_foreground:
  "(nonzero (ref_mask_of E rf prev_mask) = [] \<longrightarrow>
      frame_bbox (mixed_precision E) rf s (ref_mask_of E rf prev_mask) (flow_of E rf prev_img img) = Inl ValueError
      \<and> propagate_frame E rf s prev_img prev_mask img = Inl ValueError)
   \<and> (nonzero (ref_mask_of E rf prev_mask) \<noteq> []
        \<and> list_all (in_range (flow_of E rf prev_img img)) (nonzero (ref_mask_of E rf prev_mask)) \<longrightarrow>
      map (warp (flow_of E rf prev_img img)) (nonzero (ref_mask_of E rf prev_mask)) \<noteq> []
      \<and> (\<exists>b. frame_bbox (mixed_precision E) rf s (ref_mask_of E rf prev_mask) (flow_of E rf prev_img img) = Inr b
             \<and> propagate_frame E rf s prev_img prev_mask img
                 = Inr (cleaned E (segment_api E img b))))"
proof (intro conjI impI)
  assume e: "nonzero (ref_mask_of E rf prev_mask) = []"
  then show "frame_bbox (mixed_precision E) rf s (ref_mask_of E rf prev_mask) (flow_of E rf prev_img img) = Inl ValueError"
    by (rule frame_bbox_empty)
  then show "propagate_frame E rf s prev_img prev_mask img = Inl ValueError"
    by (rule propagate_frame_error)
next
  assume a: "nonzero (ref_mask_of E rf prev_mask) \<noteq> []
        \<and> list_all (in_range (flow_of E rf prev_img img)) (nonzero (ref_mask_of E rf prev_mask))"
  then show "map (warp (flow_of E rf prev_img img)) (nonzero (ref_mask_of E rf prev_mask)) \<noteq> []"
    by simp
  from a obtain b where
    b: "frame_bbox (mixed_precision E) rf s (ref_mask_of E rf prev_mask) (flow_of E rf prev_img img) = Inr b"
    using frame_bbox_nonempty by blast
  with propagate_frame_bbox [OF b]
  show "\<exists>b. frame_bbox (mixed_precision E) rf s (ref_mask_of E rf prev_mask) (flow_of E rf prev_img img) = Inr b
             \<and> propagate_frame E rf s prev_img prev_mask img
                 = Inr (cleaned E (segment_api E img b))"
    by blast
qed

theorem propagate_frame_needs_foreground_witness:
  "nonzero (ref_mask_of example_collaborators 1 [[False, False], [False, False]]) = []
   \<and> frame_bbox (mixed_precision example_collaborators) 1 (1 / 50) (ref_mask_of example_collaborators 1 [[False, False], [False, False]])
        (flow_of example_collaborators 1 (2, 2) (2, 2)) = Inl ValueError
   \<and> propagate_frame example_collaborators 1 (1 / 50) (2, 2) [[False, False], [False, False]] (2, 2)
        = Inl ValueError
   \<and> nonzero (ref_mask_of example_collaborators 1 [[False, True], [False, False]]) \<noteq> []
   \<and> list_all (in_range (flow_of example_collaborators 1 (2, 2) (2, 2)))
        (nonzero (ref_mask_of example_collaborators 1 [[False, True], [False, False]]))
   \<and> (\<exists>b. frame_bbox (mixed_precision example_collaborators) 1 (1 / 50) (ref_mask_of example_collaborators 1 [[False, True], [False, False]])
              (flow_of example_collaborators 1 (2, 2) (2, 2)) = Inr b
          \<and> propagate_frame example_collaborators 1 (1 / 50) (2, 2) [[False, True], [False, False]] (2, 2)
              = Inr (cleaned example_collaborators (segment_api example_collaborators (2, 2) b)))"
proof -
  have e: "nonzero (ref_mask_of example_collaborators 1 [[False, False], [False, False]]) = []"
    by (simp add: ref_mask_of_def example_collaborators_def nonzero_def)
  have n: "nonzero (ref_mask_of example_collaborators 1 [[False, True], [False, False]]) \<noteq> []
     \<and> list_all (in_range (flow_of example_collaborators 1 (2, 2) (2, 2)))
        (nonzero (ref_mask_of example_collaborators 1 [[False, True], [False, False]]))"
    by (simp add: ref_mask_of_def flow_of_def example_collaborators_def nonzero_def in_range_def
        upt_rec [of 0] upt_rec [of 1])
  show ?thesis
    using e n
      propagate_frame_needs_foreground [of example_collaborators 1
        "[[False, False], [False, False]]" "1 / 50" "(2, 2)" "(2, 2)"]
      propagate_frame_needs_foreground [of example_collaborators 1
        "[[False, True], [False, False]]" "1 / 50" "(2, 2)" "(2, 2)"]
    by blast
qed

text \<open>
  C5. When the loop returns, the mask of every frame \<open>i > 0\<close> comes from the
  segmentation of frame \<open>i\<close> at the box computed from mask \<open>i - 1\<close>: if the labelling
  of that segmentation reports no label beyond the background, the mask is all
  foreground, of the segmentation's shape; otherwise it is the set of pixels of the
  label \<open>m \<ge> 1\<close> whose area is largest, the first such label.
\<close>

theorem calculate_masks_largest_component:
  assumes "calculate_masks E rf s imgs = Inr masks" and "0 < i" and "i < length imgs"
  shows "\<exists>bbox labels stats.
           frame_bbox (mixed_precision E) rf s (ref_mask_of E rf (masks ! (i - 1)))
             (flow_of E rf (imgs ! (i - 1)) (imgs ! i)) = Inr bbox
         \<and> connectedComponentsWithStats E (segment_api E (imgs ! i) bbox) = (labels, stats)
         \<and> (if length stats \<le> 1
            then masks ! i = map (map (\<lambda>_. True)) (segment_api E (imgs ! i) bbox)
            else \<exists>m. 1 \<le> m \<and> m < length stats
                   \<and> (\<forall>l. 1 \<le> l \<and> l < length stats \<longrightarrow> stats ! l \<le> stats ! m)
                   \<and> (\<forall>l. 1 \<le> l \<and> l < m \<longrightarrow> stats ! l < stats ! m)
                   \<and> masks ! i = map (map (\<lambda>l. l = m)) labels)"
proof -
  from propagate_frame_Inr [OF calculate_masks_steps(2) [OF assms]]
  obtain bbox where
    b: "frame_bbox (mixed_precision E) rf s (ref_mask_of E rf (masks ! (i - 1)))
             (flow_of E rf (imgs ! (i - 1)) (imgs ! i)) = Inr bbox"
    and m: "masks ! i = cleaned E (segment_api E (imgs ! i) bbox)"
    by blast
  obtain labels stats where
    cc: "connectedComponentsWithStats E (segment_api E (imgs ! i) bbox) = (labels, stats)"
    by (cases "connectedComponentsWithStats E (segment_api E (imgs ! i) bbox)") auto
  have m': "masks ! i = largest_component (segment_api E (imgs ! i) bbox) labels stats"
    using m cc by (simp add: cleaned_def)
  show ?thesis
    using b cc largest_component_cases [of stats "segment_api E (imgs ! i) bbox" labels]
    unfolding m' by blast
qed

theorem calculate_masks_largest_component_witness:
  "calculate_masks example_collaborators 1 (1 / 50) [(2, 2), (2, 2)]
     = Inr [full_mask 2 2, full_mask 2 2]
   \<and> (0::nat) < 1
   \<and> 1 < length [(2::nat, 2::nat), (2, 2)]
   \<and> (\<exists>bbox labels stats.
         frame_bbox (mixed_precision example_collaborators) 1 (1 / 50)
             (ref_mask_of example_collaborators 1 ([full_mask 2 2, full_mask 2 2] ! (1 - 1)))
             (flow_of example_collaborators 1 ([(2, 2), (2, 2)] ! (1 - 1)) ([(2, 2), (2, 2)] ! 1))
           = Inr bbox
       \<and> connectedComponentsWithStats example_collaborators
            (segment_api example_collaborators ([(2, 2), (2, 2)] ! 1) bbox) = (labels, stats)
       \<and> (if length stats \<le> 1
          then [full_mask 2 2, full_mask 2 2] ! 1
                 = map (map (\<lambda>_. True)) (segment_api example_collaborators ([(2, 2), (2, 2)] ! 1) bbox)
          else \<exists>m. 1 \<le> m \<and> m < length stats
                 \<and> (\<forall>l. 1 \<le> l \<and> l < length stats \<longrightarrow> stats ! l \<le> stats ! m)
                 \<and> (\<forall>l. 1 \<le> l \<and> l < m \<longrightarrow> stats ! l < stats ! m)
                 \<and> [full_mask 2 2, full_mask 2 2] ! 1 = map (map (\<lambda>l. l = m)) labels))
   \<and> calculate_masks blind_collaborators 1 (1 / 50) [(2, 2), (2, 2)]
       = Inr [full_mask 2 2, full_mask 2 2]
   \<and> (\<exists>bbox labels stats.
         frame_bbox (mixed_precision blind_collaborators) 1 (1 / 50)
             (ref_mask_of blind_collaborators 1 ([full_mask 2 2, full_mask 2 2] ! (1 - 1)))
             (flow_of blind_collaborators 1 ([(2, 2), (2, 2)] ! (1 - 1)) ([(2, 2), (2, 2)] ! 1))
           = Inr bbox
       \<and> connectedComponentsWithStats blind_collaborators
            (segment_api blind_collaborators ([(2, 2), (2, 2)] ! 1) bbox) = (labels, stats)
       \<and> (if length stats \<le> 1
          then [full_mask 2 2, full_mask 2 2] ! 1
                 = map (map (\<lambda>_. True)) (segment_api blind_collaborators ([(2, 2), (2, 2)] ! 1) bbox)
          else \<exists>m. 1 \<le> m \<and> m < length stats
                 \<and> (\<forall>l. 1 \<le> l \<and> l < length stats \<longrightarrow> stats ! l \<le> stats ! m)
                 \<and> (\<forall>l. 1 \<le> l \<and> l < m \<longrightarrow> stats ! l < stats ! m)
                 \<and> [full_mask 2 2, full_mask 2 2] ! 1 = map (map (\<lambda>l. l = m)) labels))"
proof -
  have two: "1 < length [(2::nat, 2::nat), (2, 2)]" by simp
  show ?thesis
    by (intro conjI example_run blind_run zero_less_one two
        calculate_masks_largest_component [OF example_run zero_less_one two]
        calculate_masks_largest_component [OF blind_run zero_less_one two])
qed

section \<open>Properties of the camera adjustment\<close>

lemma update_info_first_bad:
  assumes "k < length fs"
    and "cam_camera_param_model (frame_camera (fs ! k)) \<noteq> ''PINHOLE''"
    and "\<forall>j<k. cam_camera_param_model (frame_camera (fs ! j)) = ''PINHOLE''"
    and "i + k \<le> length camera_poses" and "i + k \<le> length ks"
  shows "update_info dir camera_poses ks w h i fs =
     (Some AssertionError,
      map (\<lambda>(j, f). write_intrinsics ks j (write_pose_path_size dir camera_poses w h j f))
          (zip [i..<i + k] (take k fs)) @ drop k fs)"
  using assms
proof (induction fs arbitrary: i k)
  case Nil
  then show ?case by simp
next
  case (Cons f fs)
  show ?case
  proof (cases k)
    case 0
    then show ?thesis using Cons.prems(2) by simp
  next
    case (Suc k')
    have pin: "cam_camera_param_model (frame_camera f) = ''PINHOLE''"
      using Cons.prems(3) Suc by (metis nth_Cons_0 zero_less_Suc)
    have k': "k' < length fs" using Cons.prems(1) Suc by simp
    have bad: "cam_camera_param_model (frame_camera (fs ! k')) \<noteq> ''PINHOLE''"
      using Cons.prems(2) Suc by simp
    have good: "\<forall>j<k'. cam_camera_param_model (frame_camera (fs ! j)) = ''PINHOLE''"
    proof (intro allI impI)
      fix j assume "j < k'"
      then have "Suc j < k" using Suc by simp
      with Cons.prems(3) have "cam_camera_param_model (frame_camera ((f # fs) ! Suc j)) = ''PINHOLE''"
        by blast
      then show "cam_camera_param_model (frame_camera (fs ! j)) = ''PINHOLE''" by simp
    qed
    have l1: "Suc i + k' \<le> length camera_poses" and l2: "Suc i + k' \<le> length ks"
      using Cons.prems(4,5) Suc by simp_all
    have i1: "\<not> length camera_poses \<le> i" and i2: "\<not> length ks \<le> i"
      using Cons.prems(4,5) Suc by simp_all
    have upt: "[i..<i + Suc k'] = i # [Suc i..<Suc i + k']"
      by (simp add: upt_conv_Cons)
    let ?g = "\<lambda>(j, f). write_intrinsics ks j (write_pose_path_size dir camera_poses w h j f)"
    have lhs: "update_info dir camera_poses ks w h i (f # fs) =
        (case update_info dir camera_poses ks w h (Suc i) fs of
           (e, fs') \<Rightarrow> (e, ?g (i, f) # fs'))"
      using pin i1 i2 by (simp add: Let_def)
    have rhs: "map ?g (zip [i..<i + k] (take k (f # fs))) @ drop k (f # fs) =
        ?g (i, f) # (map ?g (zip [Suc i..<Suc i + k'] (take k' fs)) @ drop k' fs)"
      unfolding Suc upt
      by (simp only: take_Suc_Cons zip_Cons_Cons list.map drop_Suc_Cons append_Cons)
    show ?thesis
      unfolding lhs rhs Cons.IH [OF k' bad good l1 l2] by (simp only: prod.case)
  qed
qed

lemma normalize_cameras_frames:
  assumes "normalize_cameras E positive_z s db = Returned db1"
  shows "length (frames db1) = length (frames db)"
    and "j < length (frames db) \<Longrightarrow> frame_camera (frames db1 ! j) = frame_camera (frames db ! j)"
    and "j < length (frames db) \<Longrightarrow>
           frame_image_path (frames db1 ! j) = frame_image_path (frames db ! j)"
proof -
  from assms obtain cs where
    db1: "frames db1 = map (\<lambda>(f, c). f\<lparr>frame_pose := set_centre (frame_pose f) c\<rparr>) (zip (frames db) cs)"
    and len: "length cs = length (frames db)"
    by (auto simp: normalize_cameras_def Let_def split: if_splits option.splits)
  show "length (frames db1) = length (frames db)" by (simp add: db1 len)
  show "frame_camera (frames db1 ! j) = frame_camera (frames db ! j)" if "j < length (frames db)"
    using that len by (simp add: db1)
  show "frame_image_path (frames db1 ! j) = frame_image_path (frames db ! j)"
    if "j < length (frames db)"
    using that len by (simp add: db1)
qed

lemma mixed_normalized:
  "normalize_cameras example_collaborators True 1 mixed_db = Returned mixed_db_normalized"
  by (simp add: normalize_cameras_def mixed_db_def mixed_db_normalized_def example_frame_def
      Let_def example_collaborators_def)

lemma fmt06_0: "fmt06 0 = ''000000''"
  by (simp add: fmt06_def decimal.simps digits10_def eval_nat_numeral)

text \<open>
  C4, as the code has it. When the stage reaches its update loop and frame \<open>k\<close> is the
  first whose camera is not a pinhole, the stage raises \<open>AssertionError\<close> there. By
  then \<open>normalize_cameras\<close> has rewritten the pose of every frame, and the frames
  before \<open>k\<close> carry the carved pose, the new image path and the cropped intrinsics;
  the frames from \<open>k\<close> on are as \<open>normalize_cameras\<close> left them.
\<close>

theorem adjust_cameras_partial:
  assumes norm: "normalize_cameras E True 1 db = Returned db1"
    and carve: "scene_carving E masks (map (\<lambda>f. intrinsic_matrix E (frame_camera f)) (frames db1))
                  (map frame_pose (frames db1)) = poses'"
    and crop: "crop_images E images masks
                  (map (\<lambda>f. intrinsic_matrix E (frame_camera f)) (frames db1))
                = (img0 # imgs', ks', masks')"
    and shape: "img_shape E img0 = (h, w)"
    and k: "k < length (frames db)"
    and bad: "cam_camera_param_model (frame_camera (frames db ! k)) \<noteq> ''PINHOLE''"
    and good: "\<forall>j<k. cam_camera_param_model (frame_camera (frames db ! j)) = ''PINHOLE''"
    and enough: "k \<le> length poses'" "k \<le> length ks'"
  shows "adjust_cameras E dir masks images db =
     Raised AssertionError
       (db1\<lparr>frames :=
          map (\<lambda>(j, f). write_intrinsics ks' j (write_pose_path_size dir poses' w h j f))
              (zip [0..<k] (take k (frames db1)))
          @ drop k (frames db1)\<rparr>)"
proof -
  note same = normalize_cameras_frames [OF norm]
  have k1: "k < length (frames db1)" using k same(1) by simp
  have bad1: "cam_camera_param_model (frame_camera (frames db1 ! k)) \<noteq> ''PINHOLE''"
    using bad same(2) [OF k] by simp
  have good1: "\<forall>j<k. cam_camera_param_model (frame_camera (frames db1 ! j)) = ''PINHOLE''"
  proof (intro allI impI)
    fix j assume j: "j < k"
    then have "j < length (frames db)" using k by simp
    from same(2) [OF this] good j
    show "cam_camera_param_model (frame_camera (frames db1 ! j)) = ''PINHOLE''" by simp
  qed
  have e1: "0 + k \<le> length poses'" and e2: "0 + k \<le> length ks'" using enough by simp_all
  note u = update_info_first_bad [OF k1 bad1 good1 e1 e2, of dir w h]
  show ?thesis
    by (simp add: adjust_cameras_def norm carve crop shape Let_def u)
qed

theorem adjust_cameras_partial_witness:
  "normalize_cameras example_collaborators True 1 mixed_db = Returned mixed_db_normalized
   \<and> scene_carving example_collaborators [full_mask 6 8, full_mask 6 8]
        (map (\<lambda>f. intrinsic_matrix example_collaborators (frame_camera f)) (frames mixed_db_normalized))
        (map frame_pose (frames mixed_db_normalized))
      = map frame_pose (frames mixed_db_normalized)
   \<and> crop_images example_collaborators [(6, 8), (6, 8)] [full_mask 6 8, full_mask 6 8]
        (map (\<lambda>f. intrinsic_matrix example_collaborators (frame_camera f)) (frames mixed_db_normalized))
      = ((6, 8) # [(6, 8)],
         map (\<lambda>f. intrinsic_matrix example_collaborators (frame_camera f)) (frames mixed_db_normalized),
         [full_mask 6 8, full_mask 6 8])
   \<and> img_shape example_collaborators (6, 8) = (6, 8)
   \<and> 1 < length (frames mixed_db)
   \<and> cam_camera_param_model (frame_camera (frames mixed_db ! 1)) \<noteq> ''PINHOLE''
   \<and> list_all (\<lambda>j. cam_camera_param_model (frame_camera (frames mixed_db ! j)) = ''PINHOLE'') [0..<1]
   \<and> 1 \<le> length (map frame_pose (frames mixed_db_normalized))
   \<and> 1 \<le> length (map (\<lambda>f. intrinsic_matrix example_collaborators (frame_camera f))
                  (frames mixed_db_normalized))
   \<and> adjust_cameras example_collaborators ''/out'' [full_mask 6 8, full_mask 6 8] [(6, 8), (6, 8)]
        mixed_db =
      Raised AssertionError
       (mixed_db_normalized\<lparr>frames :=
          map (\<lambda>(j, f). write_intrinsics
                 (map (\<lambda>f. intrinsic_matrix example_collaborators (frame_camera f))
                    (frames mixed_db_normalized)) j
                 (write_pose_path_size ''/out'' (map frame_pose (frames mixed_db_normalized)) 8 6 j f))
              (zip [0..<1] (take 1 (frames mixed_db_normalized)))
          @ drop 1 (frames mixed_db_normalized)\<rparr>)"
proof -
  have carve: "scene_carving example_collaborators [full_mask 6 8, full_mask 6 8]
        (map (\<lambda>f. intrinsic_matrix example_collaborators (frame_camera f)) (frames mixed_db_normalized))
        (map frame_pose (frames mixed_db_normalized))
      = map frame_pose (frames mixed_db_normalized)"
    by (simp add: example_collaborators_def)
  have crop: "crop_images example_collaborators [(6, 8), (6, 8)] [full_mask 6 8, full_mask 6 8]
        (map (\<lambda>f. intrinsic_matrix example_collaborators (frame_camera f)) (frames mixed_db_normalized))
      = ((6, 8) # [(6, 8)],
         map (\<lambda>f. intrinsic_matrix example_collaborators (frame_camera f)) (frames mixed_db_normalized),
         [full_mask 6 8, full_mask 6 8])"
    by (simp add: example_collaborators_def)
  have shape: "img_shape example_collaborators (6, 8) = (6, 8)"
    by (simp add: example_collaborators_def)
  have k: "1 < length (frames mixed_db)" by (simp add: mixed_db_def)
  have bad: "cam_camera_param_model (frame_camera (frames mixed_db ! 1)) \<noteq> ''PINHOLE''"
    by (simp add: mixed_db_def)
  have good: "\<forall>j<1. cam_camera_param_model (frame_camera (frames mixed_db ! j)) = ''PINHOLE''"
    by (simp add: mixed_db_def example_frame_def example_camera_def)
  have good': "list_all (\<lambda>j. cam_camera_param_model (frame_camera (frames mixed_db ! j)) = ''PINHOLE'') [0..<1]"
    using good by (simp add: list_all_iff)
  have e1: "1 \<le> length (map frame_pose (frames mixed_db_normalized))"
    by (simp add: mixed_db_normalized_def)
  have e2: "1 \<le> length (map (\<lambda>f. intrinsic_matrix example_collaborators (frame_camera f))
                  (frames mixed_db_normalized))"
    by (simp add: mixed_db_normalized_def)
  show ?thesis
    by (intro conjI mixed_normalized carve crop shape k bad good' e1 e2
        adjust_cameras_partial [OF mixed_normalized carve crop shape k bad good e1 e2])
qed

text \<open>
  On the two frames above the stage raises at frame 1, leaving frame 0 with a new image
  path and both frames with normalized poses.
\<close>

theorem adjust_cameras_partial_counterexample:
  "map_option (\<lambda>(e, s). (e, map frame_image_path (frames s), centres s))
     (raised_state (adjust_cameras example_collaborators ''/out''
        [full_mask 6 8, full_mask 6 8] [(6, 8), (6, 8)] mixed_db))
   = Some (AssertionError, [''/out/000000.png'', ''in1.png''], [(-1, 0, 0), (1, 0, 0)])
   \<and> map frame_image_path (frames mixed_db) = [''in0.png'', ''in1.png'']
   \<and> centres mixed_db = [(0, 0, 0), (4, 0, 0)]"
  by (simp add: adjust_cameras_def mixed_normalized)
     (simp add: mixed_db_def mixed_db_normalized_def example_frame_def example_camera_def
        example_collaborators_def centres_def write_pose_path_size_def write_intrinsics_def
        path_join_def fmt06_0)

end
